theory Spec2Isabelle
  imports Complex_Main "HOL-Library.AList"
begin

section \<open>JavaScript values\<close>

text \<open>
  The server (\<^verbatim>\<open>src/server-production.js\<close>) is an Express application whose
  handlers read a parsed JSON body or a parsed query string, call the Google Cloud
  clients and answer with \<^verbatim>\<open>res.json\<close>.  A parsed JSON value is a \<open>json\<close>; an
  object is an association list read with \<open>map_of\<close>, so that a property that is
  \<^verbatim>\<open>undefined\<close> is \<open>None\<close>.  Numbers are the finite numbers JSON can write.  A
  request body is a JSON object (\<^verbatim>\<open>express.json\<close> leaves \<^verbatim>\<open>req.body\<close> an empty object
  when the request has no JSON body).  A string is the list of its characters, each a
  code point below 256 (Latin-1); text with other characters is outside this type.
\<close>

datatype json =
    JNull
  | JBool bool
  | JNum rat
  | JStr string
  | JArr "json list"
  | JObj "(string \<times> json) list"

type_synonym obj = "(string \<times> json) list"

text \<open>Truthiness, as \<^verbatim>\<open>if (v)\<close> and \<^verbatim>\<open>!v\<close> test it; \<open>None\<close> is \<^verbatim>\<open>undefined\<close>.\<close>

fun truthy :: "json option \<Rightarrow> bool" where
  "truthy None = False"
| "truthy (Some JNull) = False"
| "truthy (Some (JBool b)) = b"
| "truthy (Some (JNum n)) = (n \<noteq> 0)"
| "truthy (Some (JStr s)) = (s \<noteq> [])"
| "truthy (Some (JArr xs)) = True"
| "truthy (Some (JObj kvs)) = True"

text \<open>A destructuring default \<^verbatim>\<open>{ x = d } = o\<close> applies when the property is \<^verbatim>\<open>undefined\<close> only.\<close>

definition dflt :: "json \<Rightarrow> json option \<Rightarrow> json" where
  "dflt d v = (case v of None \<Rightarrow> d | Some x \<Rightarrow> x)"

text \<open>\<^verbatim>\<open>Array.prototype.join\<close> on strings.\<close>

fun join :: "string \<Rightarrow> string list \<Rightarrow> string" where
  "join sep [] = []"
| "join sep [x] = x"
| "join sep (x # y # ys) = x @ sep @ join sep (y # ys)"

text \<open>
  \<^verbatim>\<open>String(v)\<close>, as template literals and \<open>join\<close> apply it.  The text of a number
  is the engine's and is a parameter \<open>nt\<close>.  An array is the comma-joined text of its
  elements, \<^verbatim>\<open>null\<close> elements giving the empty text; a plain object is
  \<^verbatim>\<open>[object Object]\<close>.
\<close>

fun to_string :: "(rat \<Rightarrow> string) \<Rightarrow> json \<Rightarrow> string" where
  "to_string nt JNull = ''null''"
| "to_string nt (JBool b) = (if b then ''true'' else ''false'')"
| "to_string nt (JNum n) = nt n"
| "to_string nt (JStr s) = s"
| "to_string nt (JArr xs) =
     join '','' (map (\<lambda>x. if x = JNull then [] else to_string nt x) xs)"
| "to_string nt (JObj kvs) = ''[object Object]''"

section \<open>The document store, the model endpoint and the bucket\<close>

text \<open>
  A field of a Firestore document as the handlers write and read it: a JSON value, the
  marker \<^verbatim>\<open>admin.firestore.FieldValue.serverTimestamp()\<close>, or a stored timestamp.
\<close>

datatype fsval = Val json | ServerTimestamp | Timestamp nat

type_synonym fields = "(string \<times> fsval) list"

text \<open>
  Modelled from the spec: a document of the store, whose records are inserted ``with
  server-assigned id and server-assigned timestamp''.  \<open>doc_timestamp\<close> is the time of
  the insert, by which ordered retrieval sorts.
\<close>

record doc =
  doc_id :: string
  doc_timestamp :: nat
  doc_fields :: fields

text \<open>Modelled from the spec: \<^verbatim>\<open>doc.data()\<close> gives the fields of the document as stored.\<close>

definition doc_data :: "doc \<Rightarrow> fields" where
  "doc_data d = doc_fields d"

datatype cmp = Eq | ArrayContains

datatype direction = Asc | Desc

text \<open>
  A query under construction: \<^verbatim>\<open>firestore.collection(c)\<close>, then \<^verbatim>\<open>.where\<close>,
  \<^verbatim>\<open>.orderBy('timestamp', dir)\<close> and \<^verbatim>\<open>.limit(n)\<close>.
\<close>

record query =
  q_collection :: string
  q_where :: "(string \<times> cmp \<times> json) list"
  q_order :: "direction option"
  q_limit :: "int option"

definition collection :: "string \<Rightarrow> query" where
  "collection c = \<lparr>q_collection = c, q_where = [], q_order = None, q_limit = None\<rparr>"

definition where_q :: "string \<Rightarrow> cmp \<Rightarrow> json \<Rightarrow> query \<Rightarrow> query" where
  "where_q f c v q = q\<lparr>q_where := q_where q @ [(f, c, v)]\<rparr>"

definition orderBy_timestamp :: "direction \<Rightarrow> query \<Rightarrow> query" where
  "orderBy_timestamp dir q = q\<lparr>q_order := Some dir\<rparr>"

definition limit_q :: "int \<Rightarrow> query \<Rightarrow> query" where
  "limit_q n q = q\<lparr>q_limit := Some n\<rparr>"

datatype call =
    FsGet query
  | FsAdd string fields
  | FsCount string
  | GenerateContent json json
  | FileSave json json obj

text \<open>
  Everything outside the handler's own code.  The collaborators are the collections of
  the document store and the objects of the bucket; \<open>faults\<close> says which collaborator
  call (counted from the start of the trace \<open>calls\<close>) throws, and with what message;
  \<open>assigned_id\<close> is the generated id the store gives the document added by that call,
  as its first character and the rest (the spec: ``a non-empty generated id'');
  \<open>model_text\<close> is the text the generative model answers to a model name and a prompt.
  \<open>date_iso\<close> is \<^verbatim>\<open>new Date().toISOString()\<close>, \<open>number_text\<close> the engine's text of a
  number, \<open>engine_number\<close> the engine's number for an integer of \<open>2\<^sup>5\<^sup>3\<close> or more (the
  nearest double, \<open>None\<close> when that is infinite), \<open>proc_uptime\<close> and \<open>proc_memory\<close> what
  \<^verbatim>\<open>process.uptime()\<close> and \<^verbatim>\<open>process.memoryUsage()\<close> return.
\<close>

record world =
  collections :: "string \<Rightarrow> doc list"
  bucket_objects :: "(json \<times> json \<times> obj) list"
  server_time :: nat
  assigned_id :: "nat \<Rightarrow> char \<times> string"
  model_text :: "json \<Rightarrow> json \<Rightarrow> string"
  faults :: "nat \<Rightarrow> string option"
  calls :: "call list"
  date_iso :: string
  number_text :: "rat \<Rightarrow> string"
  engine_number :: "nat \<Rightarrow> nat option"
  proc_uptime :: rat
  proc_memory :: obj

definition issue :: "call \<Rightarrow> world \<Rightarrow> world" where
  "issue c w = w\<lparr>calls := calls w @ [c]\<rparr>"

text \<open>
  Modelled from the spec: the document store is Google's Firestore, whose code is not
  in this repository.  Its client ``supports add (insert with server-assigned id and
  server-assigned timestamp), query-by-equality-filter, ordered retrieval (descending
  by timestamp) with a result-count limit, and a count aggregate''.  A filter holds of
  a document when the field equals the value, or when the field is an array with the
  value among its elements.
\<close>

definition satisfies :: "doc \<Rightarrow> string \<times> cmp \<times> json \<Rightarrow> bool" where
  "satisfies d flt =
     (case flt of
        (f, Eq, v) \<Rightarrow> map_of (doc_data d) f = Some (Val v)
      | (f, ArrayContains, v) \<Rightarrow>
          (case map_of (doc_data d) f of Some (Val (JArr xs)) \<Rightarrow> v \<in> set xs | _ \<Rightarrow> False))"

definition ordered :: "direction option \<Rightarrow> doc list \<Rightarrow> doc list" where
  "ordered ord ds =
     (case ord of
        None \<Rightarrow> ds
      | Some Asc \<Rightarrow> sort_key (\<lambda>d. int (doc_timestamp d)) ds
      | Some Desc \<Rightarrow> sort_key (\<lambda>d. - int (doc_timestamp d)) ds)"

text \<open>
  Modelled from the spec: a query answers with the documents that satisfy every filter,
  in the order asked for, cut at the limit; the store refuses a negative limit.
\<close>

definition negative_limit_message :: string where
  "negative_limit_message = ''limit is negative''"

definition run_query :: "query \<Rightarrow> doc list \<Rightarrow> string + doc list" where
  "run_query q ds =
     (let matched = filter (\<lambda>d. list_all (satisfies d) (q_where q)) ds;
          sorted_ds = ordered (q_order q) matched
      in case q_limit q of
           None \<Rightarrow> Inr sorted_ds
         | Some n \<Rightarrow> if n < 0 then Inl negative_limit_message else Inr (take (nat n) sorted_ds))"

text \<open>
  Modelled from the spec: \<^verbatim>\<open>await query.get()\<close>.  The call is issued, and throws
  (\<open>Inl\<close>, the message of the error) or returns the documents.
\<close>

definition fs_get :: "query \<Rightarrow> world \<Rightarrow> (string + doc list) \<times> world" where
  "fs_get q w =
     (case faults w (length (calls w)) of
        Some msg \<Rightarrow> (Inl msg, issue (FsGet q) w)
      | None \<Rightarrow> (run_query q (collections w (q_collection q)), issue (FsGet q) w))"

text \<open>
  Modelled from the spec: \<^verbatim>\<open>await firestore.collection(c).count().get()\<close>, then
  \<^verbatim>\<open>.data().count\<close>, the count aggregate.
\<close>

definition fs_count :: "string \<Rightarrow> world \<Rightarrow> (string + nat) \<times> world" where
  "fs_count c w =
     (case faults w (length (calls w)) of
        Some msg \<Rightarrow> (Inl msg, issue (FsCount c) w)
      | None \<Rightarrow> (Inr (length (collections w c)), issue (FsCount c) w))"

text \<open>Modelled from the spec: the store replaces the server-timestamp marker by its own time.\<close>

definition stamp :: "nat \<Rightarrow> fsval \<Rightarrow> fsval" where
  "stamp t v = (case v of ServerTimestamp \<Rightarrow> Timestamp t | _ \<Rightarrow> v)"

text \<open>Modelled from the spec: the id the store generates for the document the next call adds.\<close>

definition new_id :: "world \<Rightarrow> string" where
  "new_id w = (case assigned_id w (length (calls w)) of (c, cs) \<Rightarrow> c # cs)"

text \<open>
  Modelled from the spec: \<^verbatim>\<open>await firestore.collection(c).add(entry)\<close>, the insert
  with server-assigned id and server-assigned timestamp.  On success the collection
  has one more document, whose fields are those of the entry with the marker
  replaced, and the result is its reference, of which the handlers read the id.
\<close>

definition fs_add :: "string \<Rightarrow> fields \<Rightarrow> world \<Rightarrow> (string + string) \<times> world" where
  "fs_add c entry w =
     (case faults w (length (calls w)) of
        Some msg \<Rightarrow> (Inl msg, issue (FsAdd c entry) w)
      | None \<Rightarrow>
          (let d = \<lparr>doc_id = new_id w,
                    doc_timestamp = server_time w,
                    doc_fields = map (\<lambda>(f, v). (f, stamp (server_time w) v)) entry\<rparr>;
               w' = issue (FsAdd c entry) w
           in (Inr (doc_id d),
               w'\<lparr>collections := (collections w')(c := collections w' c @ [d])\<rparr>)))"

text \<open>
  Modelled from the spec: the generative-model client ``supports invoking a named model
  with a single text prompt and returning generated text synchronously''.  This is
  \<^verbatim>\<open>await genModel.generateContent(prompt)\<close> followed by \<^verbatim>\<open>result.response.text()\<close>,
  for the model \<^verbatim>\<open>vertex.getGenerativeModel({ model })\<close>.
\<close>

definition generate_content :: "json \<Rightarrow> json \<Rightarrow> world \<Rightarrow> (string + string) \<times> world" where
  "generate_content model prompt w =
     (case faults w (length (calls w)) of
        Some msg \<Rightarrow> (Inl msg, issue (GenerateContent model prompt) w)
      | None \<Rightarrow> (Inr (model_text w model prompt), issue (GenerateContent model prompt) w))"

text \<open>
  Modelled from the spec: the object-store client ``supports
  save-content-under-name-with-metadata''.  This is
  \<^verbatim>\<open>await bucket.file(fileName).save(content, { metadata })\<close>.
\<close>

definition file_save :: "json \<Rightarrow> json \<Rightarrow> obj \<Rightarrow> world \<Rightarrow> (string + unit) \<times> world" where
  "file_save fileName content metadata w =
     (case faults w (length (calls w)) of
        Some msg \<Rightarrow> (Inl msg, issue (FileSave fileName content metadata) w)
      | None \<Rightarrow>
          (let w' = issue (FileSave fileName content metadata) w
           in (Inr (), w'\<lparr>bucket_objects := bucket_objects w' @ [(fileName, content, metadata)]\<rparr>)))"

section \<open>Responses\<close>

text \<open>
  What a handler passes to \<^verbatim>\<open>res.json\<close>: JSON values, documents as read from or
  written to the store, arrays and objects of these.  A property whose value is
  \<^verbatim>\<open>undefined\<close> is not serialised and is left out.
\<close>

datatype rval =
    RJson json
  | RDoc fields
  | RList "rval list"
  | RObj "(string \<times> rval) list"

record response =
  status :: nat
  payload :: "(string \<times> rval) list"

section \<open>Memory endpoints\<close>

text \<open>\<^verbatim>\<open>POST /api/memory/store\<close> (lines 246--278).\<close>

definition memory_store :: "obj \<Rightarrow> world \<Rightarrow> response \<times> world" where
  "memory_store body w =
     (let type = map_of body ''type'';
          content = map_of body ''content'';
          tags = dflt (JArr []) (map_of body ''tags'');
          metadata = dflt (JObj []) (map_of body ''metadata'')
      in if \<not> truthy type \<or> \<not> truthy content then
           (\<lparr>status = 400,
             payload = [(''success'', RJson (JBool False)),
                        (''error'', RJson (JStr ''Type and content required''))]\<rparr>, w)
         else
           (let memoryEntry =
                  [(''type'', Val (the type)),
                   (''content'', Val (the content)),
                   (''tags'', Val tags),
                   (''metadata'', Val metadata),
                   (''timestamp'', ServerTimestamp),
                   (''relevanceScore'', Val (JNum 1)),
                   (''accessCount'', Val (JNum 0))]
            in case fs_add ''memory'' memoryEntry w of
                 (Inr docRef_id, w') \<Rightarrow>
                   (\<lparr>status = 200,
                     payload = [(''success'', RJson (JBool True)),
                                (''data'', RDoc (AList.merge [(''id'', Val (JStr docRef_id))] memoryEntry)),
                                (''timestamp'', RJson (JStr (date_iso w')))]\<rparr>, w')
               | (Inl message, w') \<Rightarrow>
                   (\<lparr>status = 500,
                     payload = [(''success'', RJson (JBool False)),
                                (''error'', RJson (JStr message))]\<rparr>, w')))"

text \<open>
  \<^verbatim>\<open>parseInt(s)\<close> with no radix: leading white space is skipped (tab, line feed,
  vertical tab, form feed, carriage return, space and no-break space are the white
  space and line terminators below 256), a sign is read, a \<^verbatim>\<open>0x\<close> prefix selects
  radix 16, and the longest prefix of digits is the value; with no digit the result is
  \<^verbatim>\<open>NaN\<close>.  The value is a number of the engine: the integer itself below \<open>2\<^sup>5\<^sup>3\<close>,
  and from there on what the engine rounds it to, the parameter \<open>big\<close>.  \<open>None\<close> is a
  result that is no integer, \<^verbatim>\<open>NaN\<close> or an infinity.
\<close>

definition is_space :: "char \<Rightarrow> bool" where
  "is_space c =
     (c \<in> set [CHR 0x09, CHR 0x0A, CHR 0x0B, CHR 0x0C, CHR 0x0D, CHR 0x20, CHR 0xA0])"

definition to_number :: "(nat \<Rightarrow> nat option) \<Rightarrow> nat \<Rightarrow> nat option" where
  "to_number big n = (if n < 2 ^ 53 then Some n else big n)"

definition digit_of :: "char \<Rightarrow> nat option" where
  "digit_of c =
     (let n = (of_char c :: nat)
      in if 48 \<le> n \<and> n \<le> 57 then Some (n - 48)
         else if 97 \<le> n \<and> n \<le> 122 then Some (n - 87)
         else if 65 \<le> n \<and> n \<le> 90 then Some (n - 55)
         else None)"

definition parseInt :: "(nat \<Rightarrow> nat option) \<Rightarrow> string \<Rightarrow> int option" where
  "parseInt big s =
     (let s1 = dropWhile is_space s;
          neg = (take 1 s1 = ''-'');
          s2 = (if take 1 s1 = ''-'' \<or> take 1 s1 = ''+'' then drop 1 s1 else s1);
          hex = (take 2 s2 = ''0x'' \<or> take 2 s2 = ''0X'');
          radix = (if hex then 16 else 10);
          s3 = (if hex then drop 2 s2 else s2);
          ds = takeWhile (\<lambda>c. case digit_of c of Some d \<Rightarrow> d < radix | None \<Rightarrow> False) s3
      in if ds = [] then None
         else map_option (\<lambda>m. (if neg then - 1 else 1) * int m)
                (to_number big (foldl (\<lambda>a c. a * radix + the (digit_of c)) 0 ds)))"

text \<open>
  Modelled from the spec: the Firestore client library, whose code is not in this
  repository, refuses a limit that is not an integer.  \<^verbatim>\<open>.limit(NaN)\<close> throws before
  any fetch is issued, and the handler's \<^verbatim>\<open>catch\<close> answers 500 with the message, as
  for any collaborator error.  The text of the message is the library's.
\<close>

definition limit_nan_message :: string where
  "limit_nan_message =
     ''Value for argument '' @ [CHR 0x22] @ ''limit'' @ [CHR 0x22] @ '' is not a valid integer.''"

definition str_truthy :: "string option \<Rightarrow> bool" where
  "str_truthy v = (case v of None \<Rightarrow> False | Some s \<Rightarrow> s \<noteq> [])"

text \<open>\<^verbatim>\<open>{ id: doc.id, ...doc.data() }\<close>.\<close>

definition record_of :: "doc \<Rightarrow> fields" where
  "record_of d = AList.merge [(''id'', Val (JStr (doc_id d)))] (doc_data d)"

text \<open>
  \<^verbatim>\<open>GET /api/memory/search\<close> (lines 280--308).  \<open>params\<close> is \<^verbatim>\<open>req.query\<close> with every
  parameter given once, so that its value is a string.
\<close>

definition memory_search :: "(string \<times> string) list \<Rightarrow> world \<Rightarrow> response \<times> world" where
  "memory_search params w =
     (let type = map_of params ''type'';
          tags = map_of params ''tags'';
          limit = (case map_of params ''limit'' of None \<Rightarrow> ''10'' | Some s \<Rightarrow> s);
          query0 = collection ''memory'';
          query1 = (if str_truthy type then where_q ''type'' Eq (JStr (the type)) query0 else query0);
          query2 = (if str_truthy tags then where_q ''tags'' ArrayContains (JStr (the tags)) query1
                    else query1)
      in case parseInt (engine_number w) limit of
           None \<Rightarrow>
             (\<lparr>status = 500,
               payload = [(''success'', RJson (JBool False)),
                          (''error'', RJson (JStr limit_nan_message))]\<rparr>, w)
         | Some n \<Rightarrow>
             (case fs_get (limit_q n (orderBy_timestamp Desc query2)) w of
                (Inr docs, w') \<Rightarrow>
                  (let memories = map record_of docs
                   in (\<lparr>status = 200,
                        payload = [(''success'', RJson (JBool True)),
                                   (''data'', RObj [(''memories'', RList (map RDoc memories)),
                                                    (''count'', RJson (JNum (of_nat (length memories))))]),
                                   (''timestamp'', RJson (JStr (date_iso w')))]\<rparr>, w'))
              | (Inl message, w') \<Rightarrow>
                  (\<lparr>status = 500,
                    payload = [(''success'', RJson (JBool False)),
                               (''error'', RJson (JStr message))]\<rparr>, w')))"

section \<open>AI endpoint\<close>

text \<open>
  \<^verbatim>\<open>m.content\<close> as \<open>join\<close> turns it into text: \<^verbatim>\<open>undefined\<close> and \<^verbatim>\<open>null\<close> give the
  empty text, a timestamp object gives \<^verbatim>\<open>[object Object]\<close>.
\<close>

definition content_text :: "(rat \<Rightarrow> string) \<Rightarrow> fields \<Rightarrow> string" where
  "content_text nt m =
     (case map_of m ''content'' of
        None \<Rightarrow> []
      | Some (Val v) \<Rightarrow> (if v = JNull then [] else to_string nt v)
      | Some _ \<Rightarrow> ''[object Object]'')"

definition blank_line :: string where
  "blank_line = [CHR 0x0A, CHR 0x0A]"

text \<open>\<^verbatim>\<open>POST /api/ai/query\<close> (lines 164--241).\<close>

definition ai_query :: "obj \<Rightarrow> world \<Rightarrow> response \<times> world" where
  "ai_query body w =
     (let query = map_of body ''query'';
          useMemory = dflt (JBool True) (map_of body ''useMemory'');
          model = dflt (JStr ''gemini-2.0-flash-exp'') (map_of body ''model'')
      in if \<not> truthy query then
           (\<lparr>status = 400,
             payload = [(''success'', RJson (JBool False)),
                        (''error'', RJson (JStr ''Query parameter required''))]\<rparr>, w)
         else
           (let (memoriesUsed, w1) =
                  (if truthy (Some useMemory) then
                     (case fs_get (limit_q 5 (orderBy_timestamp Desc (collection ''memory''))) w of
                        (Inr docs, w') \<Rightarrow> (map record_of docs, w')
                      | (Inl message, w') \<Rightarrow> ([], w'))
                   else ([], w));
                context = join blank_line (map (content_text (number_text w)) memoriesUsed);
                prompt =
                  (if context \<noteq> [] then
                     JStr (''Context from memory:'' @ [CHR 0x0A] @ context @ blank_line @
                           ''User query: '' @ to_string (number_text w) (the query))
                   else the query)
            in case generate_content model prompt w1 of
                 (Inl message, w2) \<Rightarrow>
                   (\<lparr>status = 500,
                     payload = [(''success'', RJson (JBool False)),
                                (''error'', RJson (JStr message)),
                                (''timestamp'', RJson (JStr (date_iso w2)))]\<rparr>, w2)
               | (Inr response, w2) \<Rightarrow>
                   (let w3 = snd (fs_add ''memory''
                                   [(''type'', Val (JStr ''interaction'')),
                                    (''query'', Val (the query)),
                                    (''response'', Val (JStr response)),
                                    (''model'', Val model),
                                    (''timestamp'', ServerTimestamp),
                                    (''relevanceScore'', Val (JNum 1)),
                                    (''contextUsed'', Val (JBool (context \<noteq> [])))] w2)
                    in (\<lparr>status = 200,
                         payload = [(''success'', RJson (JBool True)),
                                    (''data'', RObj [(''query'', RJson (the query)),
                                                     (''response'', RJson (JStr response)),
                                                     (''model'', RJson model),
                                                     (''contextUsed'', RJson (JBool (context \<noteq> []))),
                                                     (''memoriesReferenced'',
                                                        RJson (JNum (of_nat (length memoriesUsed)))),
                                                     (''timestamp'', RJson (JStr (date_iso w3)))])]\<rparr>,
                        w3))))"

section \<open>Configuration\<close>

text \<open>
  \<^verbatim>\<open>CONFIG\<close> (lines 21--28): each field is an environment variable, or its literal
  default when the variable is unset or empty (\<^verbatim>\<open>||\<close>).
\<close>

record config =
  cfg_project :: string
  cfg_location :: string
  cfg_bucket :: string
  cfg_credentials :: string
  cfg_spreadsheetId :: string
  cfg_nodeEnv :: string

definition env_or :: "string option \<Rightarrow> string \<Rightarrow> string" where
  "env_or v d = (case v of None \<Rightarrow> d | Some s \<Rightarrow> if s = [] then d else s)"

definition CONFIG :: "(string \<Rightarrow> string option) \<Rightarrow> config" where
  "CONFIG env =
     \<lparr>cfg_project = env_or (env ''GOOGLE_CLOUD_PROJECT'') ''infinity-x-one-systems'',
      cfg_location = env_or (env ''GOOGLE_CLOUD_REGION'') ''us-east1'',
      cfg_bucket = env_or (env ''GCS_BUCKET_NAME'') ''real-estate-intelligence'',
      cfg_credentials = env_or (env ''GOOGLE_APPLICATION_CREDENTIALS'') ''/app/credentials.json'',
      cfg_spreadsheetId = env_or (env ''GOOGLE_SHEETS_ID'')
                            ''1G4ACS7NJRBcE8XyhU4V2un5xPIm_b90fPi2Rt4iMs4k'',
      cfg_nodeEnv = env_or (env ''NODE_ENV'') ''production''\<rparr>"

section \<open>Storage endpoint\<close>

text \<open>The decimal text of an array index.\<close>

fun dec :: "nat \<Rightarrow> string" where
  "dec n = (if n < 10 then [char_of (48 + n)] else dec (n div 10) @ [char_of (48 + n mod 10)])"

declare dec.simps [simp del]

text \<open>
  The own enumerable properties \<^verbatim>\<open>{ ...v }\<close> copies: those of an object, the indexed
  elements of an array, the indexed characters of a string, none of a number, a
  boolean or \<^verbatim>\<open>null\<close>.
\<close>

definition spread :: "json \<Rightarrow> obj" where
  "spread v =
     (case v of
        JObj kvs \<Rightarrow> kvs
      | JArr xs \<Rightarrow> zip (map dec [0..<length xs]) xs
      | JStr s \<Rightarrow> zip (map dec [0..<length s]) (map (\<lambda>c. JStr [c]) s)
      | _ \<Rightarrow> [])"

text \<open>
  \<^verbatim>\<open>metadata.contentType\<close>: reading a property of \<^verbatim>\<open>null\<close> throws a TypeError (\<open>Inl\<close>,
  with the message of the V8 engine); an object gives its property; any other value
  has none.
\<close>

definition null_property_message :: string where
  "null_property_message = ''Cannot read properties of null (reading 'contentType')''"

definition get_contentType :: "json \<Rightarrow> string + json option" where
  "get_contentType v =
     (case v of
        JNull \<Rightarrow> Inl null_property_message
      | JObj kvs \<Rightarrow> Inr (map_of kvs ''contentType'')
      | _ \<Rightarrow> Inr None)"

text \<open>\<^verbatim>\<open>POST /api/storage/upload\<close> (lines 313--345).\<close>

definition storage_upload :: "config \<Rightarrow> obj \<Rightarrow> world \<Rightarrow> response \<times> world" where
  "storage_upload cfg body w =
     (let fileName = map_of body ''fileName'';
          content = map_of body ''content'';
          metadata = dflt (JObj []) (map_of body ''metadata'')
      in if \<not> truthy fileName \<or> \<not> truthy content then
           (\<lparr>status = 400,
             payload = [(''success'', RJson (JBool False)),
                        (''error'', RJson (JStr ''fileName and content required''))]\<rparr>, w)
         else
           (case get_contentType metadata of
              Inl message \<Rightarrow>
                (\<lparr>status = 500,
                  payload = [(''success'', RJson (JBool False)),
                             (''error'', RJson (JStr message))]\<rparr>, w)
            | Inr contentType \<Rightarrow>
                (let options =
                       AList.merge
                         [(''contentType'',
                           if truthy contentType then the contentType else JStr ''application/json'')]
                         (spread metadata)
                 in case file_save (the fileName) (the content) options w of
                      (Inr u, w') \<Rightarrow>
                        (\<lparr>status = 200,
                          payload =
                            [(''success'', RJson (JBool True)),
                             (''data'',
                              RObj [(''fileName'', RJson (the fileName)),
                                    (''bucket'', RJson (JStr (cfg_bucket cfg))),
                                    (''url'',
                                     RJson (JStr (''gs://'' @ cfg_bucket cfg @ ''/'' @
                                                  to_string (number_text w) (the fileName))))]),
                             (''timestamp'', RJson (JStr (date_iso w')))]\<rparr>, w')
                    | (Inl message, w') \<Rightarrow>
                        (\<lparr>status = 500,
                          payload = [(''success'', RJson (JBool False)),
                                     (''error'', RJson (JStr message))]\<rparr>, w'))))"

section \<open>Properties endpoint\<close>

text \<open>\<^verbatim>\<open>POST /api/firestore/properties\<close> (lines 456--475).\<close>

definition properties_post :: "obj \<Rightarrow> world \<Rightarrow> response \<times> world" where
  "properties_post body w =
     (let propertyData =
            AList.update ''updatedAt'' ServerTimestamp
              (AList.update ''timestamp'' ServerTimestamp
                 (map (\<lambda>(k, v). (k, Val v)) body))
      in case fs_add ''properties'' propertyData w of
           (Inr docRef_id, w') \<Rightarrow>
             (\<lparr>status = 200,
               payload = [(''success'', RJson (JBool True)),
                          (''data'', RDoc (AList.merge [(''id'', Val (JStr docRef_id))] propertyData)),
                          (''timestamp'', RJson (JStr (date_iso w')))]\<rparr>, w')
         | (Inl message, w') \<Rightarrow>
             (\<lparr>status = 500,
               payload = [(''success'', RJson (JBool False)),
                          (''error'', RJson (JStr message))]\<rparr>, w'))"

section \<open>Overview endpoint\<close>

text \<open>
  \<^verbatim>\<open>GET /api/real-estate/overview\<close> (lines 480--527).  Each count has a
  \<^verbatim>\<open>try\<close>/\<^verbatim>\<open>catch\<close> of its own, which leaves the count at its initial 0.
\<close>

definition overview :: "config \<Rightarrow> world \<Rightarrow> response \<times> world" where
  "overview cfg w =
     (let (totalProperties, w1) =
            (case fs_count ''properties'' w of
               (Inr n, w') \<Rightarrow> (n, w')
             | (Inl message, w') \<Rightarrow> (0, w'));
          (totalMemories, w2) =
            (case fs_count ''memory'' w1 of
               (Inr n, w') \<Rightarrow> (n, w')
             | (Inl message, w') \<Rightarrow> (0, w'))
      in (\<lparr>status = 200,
           payload =
             [(''success'', RJson (JBool True)),
              (''data'',
               RObj [(''totalProperties'', RJson (JNum (of_nat totalProperties))),
                     (''totalMemories'', RJson (JNum (of_nat totalMemories))),
                     (''activeLeads'', RJson (JNum 342)),
                     (''hotDeals'', RJson (JNum 23)),
                     (''marketScore'', RJson (JNum (17 / 2))),
                     (''aiStatus'',
                      RJson (JObj [(''vertexAI'', JStr ''active''),
                                   (''firestore'', JStr ''active''),
                                   (''cloudStorage'', JStr ''active''),
                                   (''rag'', JStr ''active''),
                                   (''googleSheets'', JStr ''active''),
                                   (''googleDrive'', JStr ''active'')])),
                     (''systemHealth'',
                      RJson (JObj [(''uptime'', JNum (proc_uptime w2)),
                                   (''memory'', JObj (proc_memory w2)),
                                   (''environment'', JStr (cfg_nodeEnv cfg))]))]),
              (''timestamp'', RJson (JStr (date_iso w2)))]\<rparr>, w2))"

section \<open>Error handling middleware\<close>

text \<open>
  The four-argument middleware (lines 532--540) Express calls with an error no handler
  caught; \<open>err_message\<close> is \<^verbatim>\<open>err.message\<close>.  A \<^verbatim>\<open>message\<close> that is \<^verbatim>\<open>undefined\<close> is
  not serialised.
\<close>

definition error_middleware :: "config \<Rightarrow> json option \<Rightarrow> world \<Rightarrow> response" where
  "error_middleware cfg err_message w =
     (let message = (if cfg_nodeEnv cfg = ''development'' then err_message else None)
      in \<lparr>status = 500,
          payload = [(''success'', RJson (JBool False)),
                     (''error'', RJson (JStr ''Internal server error''))] @
                    (case message of None \<Rightarrow> [] | Some m \<Rightarrow> [(''message'', RJson m)]) @
                    [(''timestamp'', RJson (JStr (date_iso w)))]\<rparr>)"

section \<open>Reading a response\<close>

text \<open>The records a search response carries under \<^verbatim>\<open>data.memories\<close>; none when it has no data.\<close>

definition returned_memories :: "response \<Rightarrow> fields list" where
  "returned_memories r =
     (case map_of (payload r) ''data'' of
        Some (RObj data) \<Rightarrow>
          (case map_of data ''memories'' of
             Some (RList rs) \<Rightarrow> concat (map (\<lambda>x. case x of RDoc m \<Rightarrow> [m] | _ \<Rightarrow> []) rs)
           | _ \<Rightarrow> [])
      | _ \<Rightarrow> [])"

text \<open>The time in the \<^verbatim>\<open>timestamp\<close> field of a record.\<close>

definition record_time :: "fields \<Rightarrow> nat option" where
  "record_time m = (case map_of m ''timestamp'' of Some (Timestamp t) \<Rightarrow> Some t | _ \<Rightarrow> None)"

text \<open>
  A document whose \<^verbatim>\<open>timestamp\<close> field is the server-assigned timestamp of its insert,
  as of every document the handlers add: they write the marker under that name.
\<close>

definition timestamped :: "doc \<Rightarrow> bool" where
  "timestamped d = (record_time (doc_fields d) = Some (doc_timestamp d))"

section \<open>A sample world\<close>

text \<open>
  The double nearest to an integer of \<open>2\<^sup>5\<^sup>3\<close> or more, ties to the even significand:
  \<open>excess_bits\<close> is the number of bits beyond 53, and the result is infinite from
  \<open>2\<^sup>1\<^sup>0\<^sup>2\<^sup>4\<close> on.
\<close>

fun excess_bits :: "nat \<Rightarrow> nat" where
  "excess_bits n = (if n < 2 ^ 53 then 0 else Suc (excess_bits (n div 2)))"

declare excess_bits.simps [simp del]

definition nearest_double :: "nat \<Rightarrow> nat option" where
  "nearest_double n =
     (let e = excess_bits n;
          q = n div 2 ^ e;
          r = n mod 2 ^ e;
          m = (if 2 ^ e < 2 * r \<or> (2 * r = 2 ^ e \<and> odd q) then q + 1 else q) * 2 ^ e
      in if m < 2 ^ 1024 then Some m else None)"

text \<open>
  A world for concrete runs: the memory collection holds \<open>mem\<close>, every other collection
  and the bucket are empty, and \<open>flt\<close> schedules the faults.
\<close>

definition sample_world :: "doc list \<Rightarrow> (nat \<Rightarrow> string option) \<Rightarrow> world" where
  "sample_world mem flt =
     \<lparr>collections = (\<lambda>c. if c = ''memory'' then mem else []),
      bucket_objects = [],
      server_time = 1700000000,
      assigned_id = (\<lambda>k. (CHR ''d'', ''oc'' @ dec k)),
      model_text = (\<lambda>m p. ''ok''),
      faults = flt,
      calls = [],
      date_iso = ''2025-01-01T00:00:00.000Z'',
      number_text = (\<lambda>q. dec (nat \<lfloor>q\<rfloor>)),
      engine_number = nearest_double,
      proc_uptime = 1,
      proc_memory = []\<rparr>"

text \<open>
  Two kinds of memory record: an interaction as \<^verbatim>\<open>POST /api/ai/query\<close> stores it (it
  has no \<^verbatim>\<open>content\<close> field), and a note as \<^verbatim>\<open>POST /api/memory/store\<close> stores it.
\<close>

definition interaction_doc :: doc where
  "interaction_doc =
     \<lparr>doc_id = ''m1'', doc_timestamp = 1699999999,
      doc_fields = [(''type'', Val (JStr ''interaction'')),
                    (''query'', Val (JStr ''hello'')),
                    (''response'', Val (JStr ''ok'')),
                    (''model'', Val (JStr ''gemini-2.0-flash-exp'')),
                    (''timestamp'', Timestamp 1699999999),
                    (''relevanceScore'', Val (JNum 1)),
                    (''contextUsed'', Val (JBool False))]\<rparr>"

definition note_doc :: "string \<Rightarrow> nat \<Rightarrow> string \<Rightarrow> string list \<Rightarrow> doc" where
  "note_doc i t c tags =
     \<lparr>doc_id = i, doc_timestamp = t,
      doc_fields = [(''type'', Val (JStr ''note'')),
                    (''content'', Val (JStr c)),
                    (''tags'', Val (JArr (map JStr tags))),
                    (''metadata'', Val (JObj [])),
                    (''timestamp'', Timestamp t),
                    (''relevanceScore'', Val (JNum 1)),
                    (''accessCount'', Val (JNum 0))]\<rparr>"

text \<open>Fault schedules and environments for concrete runs.\<close>

definition no_faults :: "nat \<Rightarrow> string option" where
  [simp]: "no_faults k = None"

definition store_down :: "nat \<Rightarrow> string option" where
  [simp]: "store_down k = Some ''UNAVAILABLE''"

definition first_call_fails :: "nat \<Rightarrow> string option" where
  [simp]: "first_call_fails k = (if k = 0 then Some ''UNAVAILABLE'' else None)"

definition no_env :: "string \<Rightarrow> string option" where
  [simp]: "no_env v = None"

definition node_env :: "string \<Rightarrow> string \<Rightarrow> string option" where
  [simp]: "node_env label v = (if v = ''NODE_ENV'' then Some label else None)"

section \<open>The response envelope\<close>

text \<open>
  C1.  The claim: every response of every route handler has a \<^verbatim>\<open>timestamp\<close> field.
  The handler of \<^verbatim>\<open>POST /api/memory/store\<close> answers the empty body \<^verbatim>\<open>{}\<close> with status
  400 and the body \<^verbatim>\<open>{success: false, error: 'Type and content required'}\<close>, which has
  no \<^verbatim>\<open>timestamp\<close>, in every world.
\<close>

theorem memory_store_400_without_timestamp:
  "fst (memory_store [] w) =
     \<lparr>status = 400,
      payload = [(''success'', RJson (JBool False)),
                 (''error'', RJson (JStr ''Type and content required''))]\<rparr> \<and>
   map_of (payload (fst (memory_store [] w))) ''timestamp'' = None"
  by (simp add: memory_store_def)

theorem memory_store_400_without_timestamp_witness:
  "map_of (payload (fst (memory_store [] (sample_world [] no_faults)))) ''timestamp'' = None"
  using memory_store_400_without_timestamp [of "sample_world [] no_faults"]
  by simp

section \<open>Validation\<close>

text \<open>
  C8.  A request that misses a required field is answered with status 400 and the
  world is left as it was: no collaborator call is issued (the trace \<open>calls\<close> is
  unchanged), no document is added and no object is saved.  This holds of
  \<^verbatim>\<open>POST /api/ai/query\<close> without \<^verbatim>\<open>query\<close>, of \<^verbatim>\<open>POST /api/memory/store\<close> without
  \<^verbatim>\<open>type\<close> or \<^verbatim>\<open>content\<close>, and of \<^verbatim>\<open>POST /api/storage/upload\<close> without
  \<^verbatim>\<open>fileName\<close> or \<^verbatim>\<open>content\<close>.
\<close>

theorem missing_field_rejected:
  "(map_of body ''query'' = None \<longrightarrow>
      status (fst (ai_query body w)) = 400 \<and> snd (ai_query body w) = w) \<and>
   (map_of body ''type'' = None \<or> map_of body ''content'' = None \<longrightarrow>
      status (fst (memory_store body w)) = 400 \<and> snd (memory_store body w) = w) \<and>
   (map_of body ''fileName'' = None \<or> map_of body ''content'' = None \<longrightarrow>
      status (fst (storage_upload cfg body w)) = 400 \<and> snd (storage_upload cfg body w) = w)"
proof (intro conjI impI)
  assume "map_of body ''query'' = None"
  then show "status (fst (ai_query body w)) = 400" "snd (ai_query body w) = w"
    by (simp_all add: ai_query_def)
next
  assume "map_of body ''type'' = None \<or> map_of body ''content'' = None"
  then have "\<not> truthy (map_of body ''type'') \<or> \<not> truthy (map_of body ''content'')"
    by auto
  then show "status (fst (memory_store body w)) = 400" "snd (memory_store body w) = w"
    by (simp_all add: memory_store_def)
next
  assume "map_of body ''fileName'' = None \<or> map_of body ''content'' = None"
  then have "\<not> truthy (map_of body ''fileName'') \<or> \<not> truthy (map_of body ''content'')"
    by auto
  then show "status (fst (storage_upload cfg body w)) = 400"
    "snd (storage_upload cfg body w) = w"
    by (simp_all add: storage_upload_def)
qed

theorem missing_field_rejected_witness:
  "map_of [(''useMemory'', JBool True)] ''query'' = None \<and>
   status (fst (ai_query [(''useMemory'', JBool True)] (sample_world [] no_faults))) = 400 \<and>
   snd (ai_query [(''useMemory'', JBool True)] (sample_world [] no_faults)) =
     sample_world [] no_faults \<and>
   map_of [(''type'', JStr ''note'')] ''content'' = None \<and>
   status (fst (memory_store [(''type'', JStr ''note'')] (sample_world [] no_faults))) = 400 \<and>
   snd (memory_store [(''type'', JStr ''note'')] (sample_world [] no_faults)) =
     sample_world [] no_faults \<and>
   map_of [(''content'', JStr ''x'')] ''fileName'' = None \<and>
   status (fst (storage_upload (CONFIG no_env) [(''content'', JStr ''x'')]
                  (sample_world [] no_faults))) = 400 \<and>
   snd (storage_upload (CONFIG no_env) [(''content'', JStr ''x'')]
          (sample_world [] no_faults)) = sample_world [] no_faults"
  using missing_field_rejected [of "[(''useMemory'', JBool True)]" "sample_world [] no_faults"]
    missing_field_rejected [of "[(''type'', JStr ''note'')]" "sample_world [] no_faults"]
    missing_field_rejected [of "[(''content'', JStr ''x'')]" "sample_world [] no_faults"
      "CONFIG no_env"]
  by simp

section \<open>Storing a memory\<close>

lemma stamp_simps:
  "stamp t (Val v) = Val v" "stamp t ServerTimestamp = Timestamp t"
  "stamp t (Timestamp u) = Timestamp u"
  by (simp_all add: stamp_def)

lemma new_id_nonempty: "new_id w \<noteq> []"
  by (simp add: new_id_def split: prod.split)

text \<open>
  C2, as amended.  When \<^verbatim>\<open>type\<close> and \<^verbatim>\<open>content\<close> are both truthy (set, and not
  \<^verbatim>\<open>null\<close>, \<^verbatim>\<open>false\<close>, \<^verbatim>\<open>0\<close> or the empty string) and the insert succeeds, the
  handler of \<^verbatim>\<open>POST /api/memory/store\<close> issues one call, the insert of the entry with
  the body's \<^verbatim>\<open>type\<close> and \<^verbatim>\<open>content\<close>, the body's \<^verbatim>\<open>tags\<close> and \<^verbatim>\<open>metadata\<close> (or
  their defaults \<^verbatim>\<open>[]\<close> and \<^verbatim>\<open>{}\<close>), the server-timestamp marker, relevance score 1
  and access count 0.  The memory collection has one more document, with these fields,
  the server's time as its \<^verbatim>\<open>timestamp\<close> and the id the store generated, which is not
  empty.  The handler answers 200, and the response \<^verbatim>\<open>data\<close> hold that id and the
  fields of the entry.
\<close>

theorem memory_store_inserts:
  assumes t: "map_of body ''type'' = Some t" "truthy (Some t)"
      and c: "map_of body ''content'' = Some c" "truthy (Some c)"
      and ok: "faults w (length (calls w)) = None"
  shows "\<exists>entry i d.
           entry = [(''type'', Val t),
                    (''content'', Val c),
                    (''tags'', Val (dflt (JArr []) (map_of body ''tags''))),
                    (''metadata'', Val (dflt (JObj []) (map_of body ''metadata''))),
                    (''timestamp'', ServerTimestamp),
                    (''relevanceScore'', Val (JNum 1)),
                    (''accessCount'', Val (JNum 0))] \<and>
           i = new_id w \<and> i \<noteq> [] \<and>
           d = \<lparr>doc_id = i, doc_timestamp = server_time w,
                 doc_fields = [(''type'', Val t),
                               (''content'', Val c),
                               (''tags'', Val (dflt (JArr []) (map_of body ''tags''))),
                               (''metadata'', Val (dflt (JObj []) (map_of body ''metadata''))),
                               (''timestamp'', Timestamp (server_time w)),
                               (''relevanceScore'', Val (JNum 1)),
                               (''accessCount'', Val (JNum 0))]\<rparr> \<and>
           calls (snd (memory_store body w)) = calls w @ [FsAdd ''memory'' entry] \<and>
           collections (snd (memory_store body w)) ''memory'' = collections w ''memory'' @ [d] \<and>
           status (fst (memory_store body w)) = 200 \<and>
           map_of (payload (fst (memory_store body w))) ''success'' = Some (RJson (JBool True)) \<and>
           (\<exists>data. map_of (payload (fst (memory_store body w))) ''data'' = Some (RDoc data) \<and>
              map_of data ''id'' = Some (Val (JStr i)) \<and>
              map_of data ''type'' = Some (Val t) \<and>
              map_of data ''content'' = Some (Val c) \<and>
              map_of data ''tags'' = Some (Val (dflt (JArr []) (map_of body ''tags''))) \<and>
              map_of data ''metadata'' = Some (Val (dflt (JObj []) (map_of body ''metadata''))) \<and>
              map_of data ''timestamp'' = Some ServerTimestamp \<and>
              map_of data ''relevanceScore'' = Some (Val (JNum 1)) \<and>
              map_of data ''accessCount'' = Some (Val (JNum 0)))"
proof -
  let ?entry = "[(''type'', Val t), (''content'', Val c),
                 (''tags'', Val (dflt (JArr []) (map_of body ''tags''))),
                 (''metadata'', Val (dflt (JObj []) (map_of body ''metadata''))),
                 (''timestamp'', ServerTimestamp),
                 (''relevanceScore'', Val (JNum 1)),
                 (''accessCount'', Val (JNum 0))]"
  let ?d = "\<lparr>doc_id = new_id w, doc_timestamp = server_time w,
             doc_fields = [(''type'', Val t),
                           (''content'', Val c),
                           (''tags'', Val (dflt (JArr []) (map_of body ''tags''))),
                           (''metadata'', Val (dflt (JObj []) (map_of body ''metadata''))),
                           (''timestamp'', Timestamp (server_time w)),
                           (''relevanceScore'', Val (JNum 1)),
                           (''accessCount'', Val (JNum 0))]\<rparr>"
  have add: "fs_add ''memory'' ?entry w =
      (Inr (new_id w), (issue (FsAdd ''memory'' ?entry) w)
         \<lparr>collections := (collections w)(''memory'' := collections w ''memory'' @ [?d])\<rparr>)"
    using ok by (simp add: fs_add_def issue_def Let_def stamp_simps)
  have run: "memory_store body w =
      (\<lparr>status = 200,
        payload = [(''success'', RJson (JBool True)),
                   (''data'', RDoc (AList.merge [(''id'', Val (JStr (new_id w)))] ?entry)),
                   (''timestamp'', RJson (JStr (date_iso w)))]\<rparr>,
       (issue (FsAdd ''memory'' ?entry) w)
         \<lparr>collections := (collections w)(''memory'' := collections w ''memory'' @ [?d])\<rparr>)"
    using t c by (simp add: memory_store_def add issue_def)
  show ?thesis
  proof (rule exI [of _ ?entry], rule exI [of _ "new_id w"], rule exI [of _ ?d], intro conjI)
    show "new_id w \<noteq> []" by (rule new_id_nonempty)
    show "calls (snd (memory_store body w)) = calls w @ [FsAdd ''memory'' ?entry]"
      by (simp add: run issue_def)
    show "collections (snd (memory_store body w)) ''memory'' = collections w ''memory'' @ [?d]"
      by (simp add: run)
    show "status (fst (memory_store body w)) = 200" by (simp add: run)
    show "map_of (payload (fst (memory_store body w))) ''success'' = Some (RJson (JBool True))"
      by (simp add: run)
    show "\<exists>data. map_of (payload (fst (memory_store body w))) ''data'' = Some (RDoc data) \<and>
              map_of data ''id'' = Some (Val (JStr (new_id w))) \<and>
              map_of data ''type'' = Some (Val t) \<and>
              map_of data ''content'' = Some (Val c) \<and>
              map_of data ''tags'' = Some (Val (dflt (JArr []) (map_of body ''tags''))) \<and>
              map_of data ''metadata'' = Some (Val (dflt (JObj []) (map_of body ''metadata''))) \<and>
              map_of data ''timestamp'' = Some ServerTimestamp \<and>
              map_of data ''relevanceScore'' = Some (Val (JNum 1)) \<and>
              map_of data ''accessCount'' = Some (Val (JNum 0))"
      by (simp add: run merge_conv')
  qed (rule refl)+
qed

text \<open>A run of the theorem: a note is stored in the empty sample world.\<close>

theorem memory_store_inserts_witness:
  "truthy (Some (JStr ''note'')) \<and> truthy (Some (JStr ''call the agent'')) \<and>
   faults (sample_world [] no_faults) (length (calls (sample_world [] no_faults))) = None \<and>
   calls (snd (memory_store [(''type'', JStr ''note''), (''content'', JStr ''call the agent'')]
                 (sample_world [] no_faults))) =
     [FsAdd ''memory'' [(''type'', Val (JStr ''note'')),
                        (''content'', Val (JStr ''call the agent'')),
                        (''tags'', Val (JArr [])),
                        (''metadata'', Val (JObj [])),
                        (''timestamp'', ServerTimestamp),
                        (''relevanceScore'', Val (JNum 1)),
                        (''accessCount'', Val (JNum 0))]] \<and>
   status (fst (memory_store [(''type'', JStr ''note''), (''content'', JStr ''call the agent'')]
                  (sample_world [] no_faults))) = 200"
  using memory_store_inserts [of "[(''type'', JStr ''note''), (''content'', JStr ''call the agent'')]"
      "JStr ''note''" "JStr ''call the agent''" "sample_world [] no_faults"]
  by (simp add: sample_world_def dflt_def)

text \<open>
  C2 as stated fails: a body whose \<^verbatim>\<open>content\<close> is set to the empty string is answered
  with 400 and nothing is inserted; and a body that passes validation is answered with
  500, without data, when the insert throws.
\<close>

theorem memory_store_set_but_rejected:
  "map_of [(''type'', JStr ''note''), (''content'', JStr '''')] ''type'' = Some (JStr ''note'') \<and>
   map_of [(''type'', JStr ''note''), (''content'', JStr '''')] ''content'' = Some (JStr '''') \<and>
   fst (memory_store [(''type'', JStr ''note''), (''content'', JStr '''')] (sample_world [] no_faults)) =
     \<lparr>status = 400,
      payload = [(''success'', RJson (JBool False)),
                 (''error'', RJson (JStr ''Type and content required''))]\<rparr> \<and>
   collections (snd (memory_store [(''type'', JStr ''note''), (''content'', JStr '''')]
                       (sample_world [] no_faults))) ''memory'' = [] \<and>
   fst (memory_store [(''type'', JStr ''note''), (''content'', JStr ''text'')]
          (sample_world [] store_down)) =
     \<lparr>status = 500,
      payload = [(''success'', RJson (JBool False)),
                 (''error'', RJson (JStr ''UNAVAILABLE''))]\<rparr> \<and>
   collections (snd (memory_store [(''type'', JStr ''note''), (''content'', JStr ''text'')]
                       (sample_world [] store_down))) ''memory'' = []"
  by (simp add: memory_store_def sample_world_def fs_add_def issue_def)

section \<open>Creating a property\<close>

lemma map_of_Val:
  "map_of (map (\<lambda>(k, v). (k, Val v)) body) k = map_option Val (map_of body k)"
  by (simp add: map_of_map)

lemma map_of_stamped:
  "map_of (map (\<lambda>(f, v). (f, stamp t v)) entry) k = map_option (stamp t) (map_of entry k)"
  by (simp add: map_of_map)

text \<open>
  C9.  The handler of \<^verbatim>\<open>POST /api/firestore/properties\<close> issues one call, the insert
  of an entry in which \<^verbatim>\<open>timestamp\<close> and \<^verbatim>\<open>updatedAt\<close> are the server-timestamp
  marker and every other field is the body's, unchanged, whatever the body holds under
  these two names.  When the insert succeeds the collection has one more document,
  whose \<^verbatim>\<open>timestamp\<close> and \<^verbatim>\<open>updatedAt\<close> are the server's time and whose other fields
  are the body's, unchanged.
\<close>

theorem properties_post_frame:
  "\<exists>entry. calls (snd (properties_post body w)) = calls w @ [FsAdd ''properties'' entry] \<and>
      map_of entry ''timestamp'' = Some ServerTimestamp \<and>
      map_of entry ''updatedAt'' = Some ServerTimestamp \<and>
      (\<forall>k. k \<noteq> ''timestamp'' \<and> k \<noteq> ''updatedAt'' \<longrightarrow>
            map_of entry k = map_option Val (map_of body k)) \<and>
      (faults w (length (calls w)) = None \<longrightarrow>
         (\<exists>d. collections (snd (properties_post body w)) ''properties'' =
                 collections w ''properties'' @ [d] \<and>
              map_of (doc_data d) ''timestamp'' = Some (Timestamp (server_time w)) \<and>
              map_of (doc_data d) ''updatedAt'' = Some (Timestamp (server_time w)) \<and>
              (\<forall>k. k \<noteq> ''timestamp'' \<and> k \<noteq> ''updatedAt'' \<longrightarrow>
                    map_of (doc_data d) k = map_option Val (map_of body k))))"
proof -
  let ?entry = "AList.update ''updatedAt'' ServerTimestamp
                  (AList.update ''timestamp'' ServerTimestamp (map (\<lambda>(k, v). (k, Val v)) body))"
  let ?d = "\<lparr>doc_id = new_id w, doc_timestamp = server_time w,
             doc_fields = map (\<lambda>(f, v). (f, stamp (server_time w) v)) ?entry\<rparr>"
  have lookup: "map_of ?entry = ((map_option Val \<circ> map_of body)(''timestamp'' \<mapsto> ServerTimestamp))
                                  (''updatedAt'' \<mapsto> ServerTimestamp)"
    by (simp add: update_conv' map_of_map)
  have trace: "calls (snd (properties_post body w)) = calls w @ [FsAdd ''properties'' ?entry]"
    by (simp add: properties_post_def fs_add_def issue_def Let_def split: option.split)
  have stored: "collections (snd (properties_post body w)) ''properties'' =
                  collections w ''properties'' @ [?d]"
    if "faults w (length (calls w)) = None"
    using that by (simp add: properties_post_def fs_add_def issue_def Let_def)
  have kept: "map_of (doc_data ?d) k = map_option Val (map_of body k)"
    if "k \<noteq> ''timestamp''" "k \<noteq> ''updatedAt''" for k
    using that
    by (cases "map_of body k")
       (simp_all add: doc_data_def update_conv' map_of_stamped map_of_Val stamp_simps)
  have stamped: "map_of (doc_data ?d) ''timestamp'' = Some (Timestamp (server_time w))"
    "map_of (doc_data ?d) ''updatedAt'' = Some (Timestamp (server_time w))"
    by (simp_all add: doc_data_def update_conv' map_of_stamped map_of_Val stamp_simps)
  show ?thesis
  proof (intro exI [of _ ?entry] conjI impI allI)
    show "calls (snd (properties_post body w)) = calls w @ [FsAdd ''properties'' ?entry]"
      by (rule trace)
    show "map_of ?entry ''timestamp'' = Some ServerTimestamp"
      "map_of ?entry ''updatedAt'' = Some ServerTimestamp"
      by (simp_all add: lookup)
    show "map_of ?entry k = map_option Val (map_of body k)"
      if "k \<noteq> ''timestamp'' \<and> k \<noteq> ''updatedAt''" for k
      using that by (simp add: lookup)
    show "\<exists>d. collections (snd (properties_post body w)) ''properties'' =
                 collections w ''properties'' @ [d] \<and>
              map_of (doc_data d) ''timestamp'' = Some (Timestamp (server_time w)) \<and>
              map_of (doc_data d) ''updatedAt'' = Some (Timestamp (server_time w)) \<and>
              (\<forall>k. k \<noteq> ''timestamp'' \<and> k \<noteq> ''updatedAt'' \<longrightarrow>
                    map_of (doc_data d) k = map_option Val (map_of body k))"
      if "faults w (length (calls w)) = None"
      using stored [OF that] stamped kept by (intro exI [of _ ?d]) blast
  qed
qed

text \<open>
  A run of the theorem: the caller supplies a \<^verbatim>\<open>timestamp\<close> of its own, the stored
  document carries the server's.
\<close>

theorem properties_post_frame_witness:
  "faults (sample_world [] no_faults) (length (calls (sample_world [] no_faults))) = None \<and>
   (\<exists>d. collections (snd (properties_post
            [(''address'', JStr ''1 Main St''), (''timestamp'', JStr ''1999-01-01'')]
            (sample_world [] no_faults))) ''properties'' = [d] \<and>
        map_of (doc_data d) ''timestamp'' = Some (Timestamp 1700000000) \<and>
        map_of (doc_data d) ''updatedAt'' = Some (Timestamp 1700000000) \<and>
        map_of (doc_data d) ''address'' = Some (Val (JStr ''1 Main St'')))"
proof -
  let ?b = "[(''address'', JStr ''1 Main St''), (''timestamp'', JStr ''1999-01-01'')]"
  let ?w = "sample_world [] no_faults"
  have ok: "faults ?w (length (calls ?w)) = None"
    by (simp add: sample_world_def)
  from properties_post_frame [of ?b ?w] ok
  obtain d where d: "collections (snd (properties_post ?b ?w)) ''properties'' =
        collections ?w ''properties'' @ [d]"
      "map_of (doc_data d) ''timestamp'' = Some (Timestamp (server_time ?w))"
      "map_of (doc_data d) ''updatedAt'' = Some (Timestamp (server_time ?w))"
      "\<forall>k. k \<noteq> ''timestamp'' \<and> k \<noteq> ''updatedAt'' \<longrightarrow>
           map_of (doc_data d) k = map_option Val (map_of ?b k)"
    by blast
  from d(4) have "map_of (doc_data d) ''address'' = map_option Val (map_of ?b ''address'')"
    by simp
  with d(1-3) ok show ?thesis
    by (intro conjI exI [of _ d]) (simp_all add: sample_world_def)
qed

section \<open>Overview counts\<close>

text \<open>
  C7.  The handler of \<^verbatim>\<open>GET /api/real-estate/overview\<close> answers 200 with
  \<^verbatim>\<open>success: true\<close> in every world.  Its data hold both counts, each the size of its
  collection when its count call succeeds and 0 when that call throws, and the static
  metrics \<^verbatim>\<open>activeLeads\<close> 342, \<^verbatim>\<open>hotDeals\<close> 23 and \<^verbatim>\<open>marketScore\<close> 8.5.
\<close>

theorem overview_counts_default_to_zero:
  "status (fst (overview cfg w)) = 200 \<and>
   map_of (payload (fst (overview cfg w))) ''success'' = Some (RJson (JBool True)) \<and>
   map_of (payload (fst (overview cfg w))) ''error'' = None \<and>
   (\<exists>data. map_of (payload (fst (overview cfg w))) ''data'' = Some (RObj data) \<and>
      map_of data ''totalProperties'' =
        Some (RJson (JNum (if faults w (length (calls w)) = None
                           then of_nat (length (collections w ''properties'')) else 0))) \<and>
      map_of data ''totalMemories'' =
        Some (RJson (JNum (if faults w (Suc (length (calls w))) = None
                           then of_nat (length (collections w ''memory'')) else 0))) \<and>
      map_of data ''activeLeads'' = Some (RJson (JNum 342)) \<and>
      map_of data ''hotDeals'' = Some (RJson (JNum 23)) \<and>
      map_of data ''marketScore'' = Some (RJson (JNum (17 / 2))))"
  by (cases "faults w (length (calls w))"; cases "faults w (Suc (length (calls w)))")
     (simp_all add: overview_def fs_count_def issue_def)

text \<open>A run of the theorem: the properties count throws, the memory count succeeds.\<close>

theorem overview_counts_default_to_zero_witness:
  "faults (sample_world [\<lparr>doc_id = ''m1'', doc_timestamp = 5, doc_fields = []\<rparr>]
             first_call_fails) 0 = Some ''UNAVAILABLE'' \<and>
   status (fst (overview (CONFIG no_env)
      (sample_world [\<lparr>doc_id = ''m1'', doc_timestamp = 5, doc_fields = []\<rparr>]
         first_call_fails))) = 200 \<and>
   (\<exists>data. map_of (payload (fst (overview (CONFIG no_env)
      (sample_world [\<lparr>doc_id = ''m1'', doc_timestamp = 5, doc_fields = []\<rparr>]
         first_call_fails)))) ''data'' = Some (RObj data) \<and>
      map_of data ''totalProperties'' = Some (RJson (JNum 0)) \<and>
      map_of data ''totalMemories'' = Some (RJson (JNum 1)))"
  using overview_counts_default_to_zero [of "CONFIG no_env"
      "sample_world [\<lparr>doc_id = ''m1'', doc_timestamp = 5, doc_fields = []\<rparr>]
         first_call_fails"]
  by (auto simp add: sample_world_def)

section \<open>The fallback middleware\<close>

text \<open>
  C6, as amended.  For every error that reaches the fallback middleware the response is
  a 500 envelope with \<^verbatim>\<open>success: false\<close> and the fixed error text; the message of the
  underlying error is included when the environment label is exactly
  \<^verbatim>\<open>development\<close> and left out for every other label.
\<close>

theorem fallback_envelope:
  "status (error_middleware cfg err_message w) = 500 \<and>
   map_of (payload (error_middleware cfg err_message w)) ''success'' = Some (RJson (JBool False)) \<and>
   map_of (payload (error_middleware cfg err_message w)) ''error'' =
     Some (RJson (JStr ''Internal server error'')) \<and>
   map_of (payload (error_middleware cfg err_message w)) ''data'' = None \<and>
   map_of (payload (error_middleware cfg err_message w)) ''message'' =
     (if cfg_nodeEnv cfg = ''development'' then map_option RJson err_message else None)"
  by (cases err_message) (simp_all add: error_middleware_def)

text \<open>A run of the theorem under the label \<^verbatim>\<open>development\<close>.\<close>

theorem fallback_envelope_witness:
  "cfg_nodeEnv (CONFIG (node_env ''development'')) = ''development'' \<and>
   map_of (payload (error_middleware
      (CONFIG (node_env ''development''))
      (Some (JStr ''boom'')) (sample_world [] no_faults))) ''message'' = Some (RJson (JStr ''boom''))"
  using fallback_envelope [of "CONFIG (node_env ''development'')"
      "Some (JStr ''boom'')" "sample_world [] no_faults"]
  by (simp add: CONFIG_def env_or_def)

text \<open>
  C6 as stated fails: \<^verbatim>\<open>staging\<close> is a label other than \<^verbatim>\<open>production\<close>, and the
  response has no message.
\<close>

theorem fallback_hides_message_in_staging:
  "cfg_nodeEnv (CONFIG (node_env ''staging'')) = ''staging'' \<and>
   ''staging'' \<noteq> ''production'' \<and>
   error_middleware (CONFIG (node_env ''staging''))
      (Some (JStr ''boom'')) (sample_world [] no_faults) =
     \<lparr>status = 500,
      payload = [(''success'', RJson (JBool False)),
                 (''error'', RJson (JStr ''Internal server error'')),
                 (''timestamp'', RJson (JStr ''2025-01-01T00:00:00.000Z''))]\<rparr>"
  by (simp add: error_middleware_def CONFIG_def env_or_def sample_world_def)

section \<open>The AI query and its memory\<close>

lemma join_empty_iff:
  "sep \<noteq> [] \<Longrightarrow> join sep xs = [] \<longleftrightarrow> xs = [] \<or> xs = [[]]"
  by (induction sep xs rule: join.induct) simp_all

lemma record_of_lookup:
  "k \<noteq> ''id'' \<Longrightarrow> map_of (record_of d) k = map_of (doc_data d) k"
  by (cases "map_of (doc_data d) k") (simp_all add: record_of_def merge_conv' map_add_def)

lemma record_time_record_of:
  "timestamped d \<Longrightarrow> record_time (record_of d) = Some (doc_timestamp d)"
  by (simp add: timestamped_def record_time_def record_of_lookup doc_data_def)

lemma content_text_record_of:
  "content_text nt (record_of d) = content_text nt (doc_fields d)"
  by (simp add: content_text_def record_of_lookup doc_data_def update_conv')

lemma length_ordered: "length (ordered ord ds) = length ds"
  by (simp add: ordered_def split: option.split direction.split)

lemma set_ordered: "set (ordered ord ds) = set ds"
  by (simp add: ordered_def split: option.split direction.split)

lemma ordered_singleton: "ordered ord [d] = [d]"
  by (simp add: ordered_def split: option.split direction.split)

lemma ordered_desc_sorted:
  "sorted_wrt (\<lambda>a b. doc_timestamp b \<le> doc_timestamp a) (ordered (Some Desc) ds)"
proof -
  have "sorted (map (\<lambda>d. - int (doc_timestamp d)) (sort_key (\<lambda>d. - int (doc_timestamp d)) ds))"
    by (rule sorted_sort_key)
  then show ?thesis
    by (simp add: sorted_map ordered_def)
qed

lemma q_collection_simps:
  "q_collection (collection c) = c"
  "q_collection (where_q f cmp v q) = q_collection q"
  "q_collection (orderBy_timestamp dir q) = q_collection q"
  "q_collection (limit_q n q) = q_collection q"
  by (simp_all add: collection_def where_q_def orderBy_timestamp_def limit_q_def)

lemma two_or_more: "2 \<le> length xs \<Longrightarrow> xs \<noteq> [] \<and> xs \<noteq> [[]]"
  by (cases xs) auto

lemma recent_five:
  "run_query (limit_q 5 (orderBy_timestamp Desc (collection ''memory''))) ds =
     Inr (take 5 (ordered (Some Desc) ds))"
  by (simp add: run_query_def limit_q_def orderBy_timestamp_def collection_def)

text \<open>
  C4.  With \<^verbatim>\<open>useMemory: false\<close> the handler of \<^verbatim>\<open>POST /api/ai/query\<close> issues no
  fetch from the document store, and every prompt it passes to the generative model is
  the raw \<^verbatim>\<open>query\<close> of the body; when the query passes validation the first call it
  issues is that model call.
\<close>

theorem ai_query_without_memory:
  assumes "map_of body ''useMemory'' = Some (JBool False)"
  shows "\<exists>new. calls (snd (ai_query body w)) = calls w @ new \<and>
           (\<forall>q. FsGet q \<notin> set new) \<and>
           (\<forall>m p. GenerateContent m p \<in> set new \<longrightarrow> map_of body ''query'' = Some p) \<and>
           (truthy (map_of body ''query'') \<longrightarrow>
              (\<exists>rest. new = GenerateContent (dflt (JStr ''gemini-2.0-flash-exp'') (map_of body ''model''))
                              (the (map_of body ''query'')) # rest))"
proof (cases "truthy (map_of body ''query'')")
  case False
  then have "calls (snd (ai_query body w)) = calls w @ []"
    by (simp add: ai_query_def)
  with False show ?thesis by (intro exI [of _ "[]"]) simp
next
  case True
  then obtain q where q: "map_of body ''query'' = Some q"
    by (cases "map_of body ''query''") simp_all
  let ?model = "dflt (JStr ''gemini-2.0-flash-exp'') (map_of body ''model'')"
  show ?thesis
  proof (cases "faults w (length (calls w))")
    case (Some msg)
    with True q assms
    have "calls (snd (ai_query body w)) = calls w @ [GenerateContent ?model q]"
      by (simp add: ai_query_def dflt_def generate_content_def issue_def)
    with q show ?thesis
      by (intro exI [of _ "[GenerateContent ?model q]"]) simp
  next
    case None
    with True q assms
    have "\<exists>entry. calls (snd (ai_query body w)) =
            calls w @ [GenerateContent ?model q, FsAdd ''memory'' entry]"
      by (simp add: ai_query_def dflt_def generate_content_def issue_def fs_add_def Let_def
               split: option.split)
    then obtain entry where
      "calls (snd (ai_query body w)) = calls w @ [GenerateContent ?model q, FsAdd ''memory'' entry]"
      by blast
    with q show ?thesis
      by (intro exI [of _ "[GenerateContent ?model q, FsAdd ''memory'' entry]"]) simp
  qed
qed

text \<open>A run of the theorem in the empty sample world.\<close>

theorem ai_query_without_memory_witness:
  "map_of [(''query'', JStr ''price of 1 Main St?''), (''useMemory'', JBool False)] ''useMemory'' =
     Some (JBool False) \<and>
   truthy (map_of [(''query'', JStr ''price of 1 Main St?''), (''useMemory'', JBool False)] ''query'') \<and>
   (\<exists>new. calls (snd (ai_query [(''query'', JStr ''price of 1 Main St?''), (''useMemory'', JBool False)]
                        (sample_world [] no_faults))) =
            calls (sample_world [] no_faults) @ new \<and>
          (\<forall>q. FsGet q \<notin> set new) \<and>
          (\<exists>rest. new = GenerateContent (JStr ''gemini-2.0-flash-exp'') (JStr ''price of 1 Main St?'') # rest))"
  using ai_query_without_memory
    [of "[(''query'', JStr ''price of 1 Main St?''), (''useMemory'', JBool False)]"
        "sample_world [] no_faults"]
  by (auto simp add: dflt_def)

lemma context_used_iff:
  assumes "ds \<noteq> []"
  shows "join blank_line (map (content_text nt) (map record_of (take 5 (ordered (Some Desc) ds)))) \<noteq> []
         \<longleftrightarrow> 2 \<le> length ds \<or> (\<exists>d \<in> set ds. content_text nt (doc_fields d) \<noteq> [])"
proof (cases "2 \<le> length ds")
  case True
  then have "2 \<le> length (map (content_text nt) (map record_of (take 5 (ordered (Some Desc) ds))))"
    by (simp add: length_ordered)
  then have "map (content_text nt) (map record_of (take 5 (ordered (Some Desc) ds))) \<noteq> [] \<and>
    map (content_text nt) (map record_of (take 5 (ordered (Some Desc) ds))) \<noteq> [[]]"
    by (rule two_or_more)
  with True show ?thesis
    by (simp add: join_empty_iff blank_line_def)
next
  case False
  moreover from assms have "length ds \<noteq> 0"
    by simp
  ultimately have "length ds = 1"
    by arith
  then obtain d where "ds = [d]"
    by (auto simp: length_Suc_conv)
  then show ?thesis
    by (simp add: ordered_singleton content_text_record_of)
qed

text \<open>
  C3, as amended.  With \<^verbatim>\<open>useMemory: true\<close>, a query that passes validation, a memory
  fetch and a model call that succeed, and at least one memory record, the handler
  answers 200 with \<^verbatim>\<open>memoriesReferenced\<close> the minimum of 5 and the number of memory
  records; \<^verbatim>\<open>contextUsed\<close> is true exactly when there are two or more memory records
  or the record has a non-empty content text.
\<close>

theorem ai_query_with_memory:
  assumes query: "map_of body ''query'' = Some q" "truthy (Some q)"
      and useMemory: "map_of body ''useMemory'' = Some (JBool True)"
      and fetch_ok: "faults w (length (calls w)) = None"
      and model_ok: "faults w (Suc (length (calls w))) = None"
      and prior: "collections w ''memory'' \<noteq> []"
  shows "status (fst (ai_query body w)) = 200 \<and>
         (\<exists>data. map_of (payload (fst (ai_query body w))) ''data'' = Some (RObj data) \<and>
            map_of data ''memoriesReferenced'' =
              Some (RJson (JNum (of_nat (min 5 (length (collections w ''memory'')))))) \<and>
            map_of data ''contextUsed'' =
              Some (RJson (JBool (2 \<le> length (collections w ''memory'') \<or>
                                  (\<exists>d \<in> set (collections w ''memory'').
                                      content_text (number_text w) (doc_fields d) \<noteq> [])))))"
proof -
  let ?mem = "collections w ''memory''"
  let ?used = "map record_of (take 5 (ordered (Some Desc) ?mem))"
  let ?joined = "join blank_line (map (content_text (number_text w)) ?used)"
  have fetch: "fs_get (limit_q 5 (orderBy_timestamp Desc (collection ''memory''))) w =
      (Inr (take 5 (ordered (Some Desc) ?mem)),
       issue (FsGet (limit_q 5 (orderBy_timestamp Desc (collection ''memory'')))) w)"
    using fetch_ok by (simp add: fs_get_def recent_five q_collection_simps)
  have used: "length ?used = min 5 (length ?mem)"
    by (simp add: length_ordered min.commute)
  have ctx: "?joined \<noteq> [] \<longleftrightarrow>
      2 \<le> length ?mem \<or> (\<exists>d \<in> set ?mem. content_text (number_text w) (doc_fields d) \<noteq> [])"
    using prior by (rule context_used_iff)
  have run: "fst (ai_query body w) =
      \<lparr>status = 200,
       payload = [(''success'', RJson (JBool True)),
                  (''data'', RObj [(''query'', RJson q),
                                   (''response'', RJson (JStr (model_text w
                                       (dflt (JStr ''gemini-2.0-flash-exp'') (map_of body ''model''))
                                       (if ?joined \<noteq> [] then
                                          JStr (''Context from memory:'' @ [CHR 0x0A] @ ?joined @ blank_line @
                                                ''User query: '' @ to_string (number_text w) q)
                                        else q)))),
                                   (''model'', RJson (dflt (JStr ''gemini-2.0-flash-exp'') (map_of body ''model''))),
                                   (''contextUsed'', RJson (JBool (?joined \<noteq> []))),
                                   (''memoriesReferenced'', RJson (JNum (of_nat (length ?used)))),
                                   (''timestamp'', RJson (JStr (date_iso w)))])]\<rparr>"
    using query useMemory model_ok
    by (simp add: ai_query_def dflt_def fetch generate_content_def issue_def fs_add_def Let_def
             split: option.split)
  show ?thesis
    unfolding run using used ctx by simp
qed

text \<open>A run of the theorem: one note with a content.\<close>

theorem ai_query_with_memory_witness:
  "truthy (Some (JStr ''hi'')) \<and>
   faults (sample_world [note_doc ''n1'' 5 ''likes brick houses'' []] no_faults) 0 = None \<and>
   collections (sample_world [note_doc ''n1'' 5 ''likes brick houses'' []] no_faults) ''memory'' \<noteq> [] \<and>
   status (fst (ai_query [(''query'', JStr ''hi''), (''useMemory'', JBool True)]
                  (sample_world [note_doc ''n1'' 5 ''likes brick houses'' []] no_faults))) = 200 \<and>
   (\<exists>data. map_of (payload (fst (ai_query [(''query'', JStr ''hi''), (''useMemory'', JBool True)]
                  (sample_world [note_doc ''n1'' 5 ''likes brick houses'' []] no_faults)))) ''data'' =
              Some (RObj data) \<and>
      map_of data ''memoriesReferenced'' = Some (RJson (JNum 1)) \<and>
      map_of data ''contextUsed'' = Some (RJson (JBool True)))"
  using ai_query_with_memory [of "[(''query'', JStr ''hi''), (''useMemory'', JBool True)]" "JStr ''hi''"
      "sample_world [note_doc ''n1'' 5 ''likes brick houses'' []] no_faults"]
  by (simp add: sample_world_def note_doc_def content_text_def)

text \<open>
  C3 as stated fails: when the only memory record is an interaction the handler itself
  stored, which has no \<^verbatim>\<open>content\<close>, the fetch returns it and the response has
  \<^verbatim>\<open>memoriesReferenced\<close> 1 and \<^verbatim>\<open>contextUsed\<close> false.
\<close>

theorem ai_query_single_interaction_no_context:
  "collections (sample_world [interaction_doc] no_faults) ''memory'' = [interaction_doc] \<and>
   faults (sample_world [interaction_doc] no_faults) 0 = None \<and>
   fst (ai_query [(''query'', JStr ''hi''), (''useMemory'', JBool True)]
          (sample_world [interaction_doc] no_faults)) =
     \<lparr>status = 200,
      payload = [(''success'', RJson (JBool True)),
                 (''data'', RObj [(''query'', RJson (JStr ''hi'')),
                                  (''response'', RJson (JStr ''ok'')),
                                  (''model'', RJson (JStr ''gemini-2.0-flash-exp'')),
                                  (''contextUsed'', RJson (JBool False)),
                                  (''memoriesReferenced'', RJson (JNum 1)),
                                  (''timestamp'', RJson (JStr ''2025-01-01T00:00:00.000Z''))])]\<rparr>"
  by (simp add: ai_query_def dflt_def fs_get_def recent_five q_collection_simps ordered_singleton
        generate_content_def fs_add_def issue_def sample_world_def content_text_def
        record_of_lookup doc_data_def update_conv' interaction_doc_def Let_def)

section \<open>Searching the memory\<close>

lemma parseInt_examples:
  "parseInt big ''2'' = Some 2" "parseInt big ''5'' = Some 5" "parseInt big ''10'' = Some 10"
  by (simp_all add: parseInt_def is_space_def digit_of_def to_number_def)

lemma returned_memories_ok:
  "returned_memories
     \<lparr>status = s,
      payload = [(''success'', a),
                 (''data'', RObj [(''memories'', RList (map RDoc ms)), (''count'', c)]),
                 (''timestamp'', t)]\<rparr> = ms"
  by (induction ms) (simp_all add: returned_memories_def)

lemma returned_memories_error:
  "returned_memories \<lparr>status = s, payload = [(''success'', a), (''error'', e)]\<rparr> = []"
  by (simp add: returned_memories_def)

lemma run_query_limited:
  "0 \<le> n \<Longrightarrow> q_limit q = Some n \<Longrightarrow>
     run_query q ds =
       Inr (take (nat n) (ordered (q_order q) (filter (\<lambda>d. list_all (satisfies d) (q_where q)) ds)))"
  by (simp add: run_query_def)

lemma run_query_negative:
  "n < 0 \<Longrightarrow> q_limit q = Some n \<Longrightarrow> run_query q ds = Inl negative_limit_message"
  by (simp add: run_query_def)

text \<open>
  What a search does: when its limit is no integer it issues nothing and answers 500;
  otherwise it issues one fetch, for the query built from the parameters, and answers
  200 with the documents found, or 500 without data when the fetch throws or the limit
  is negative.
\<close>

lemma memory_search_nan:
  assumes "parseInt (engine_number w)
             (case map_of params ''limit'' of None \<Rightarrow> ''10'' | Some s \<Rightarrow> s) = None"
  shows "memory_search params w =
           (\<lparr>status = 500,
             payload = [(''success'', RJson (JBool False)),
                        (''error'', RJson (JStr limit_nan_message))]\<rparr>, w)"
  using assms by (simp add: memory_search_def Let_def)

lemma memory_search_cases:
  assumes "parseInt (engine_number w)
             (case map_of params ''limit'' of None \<Rightarrow> ''10'' | Some s \<Rightarrow> s) = Some n"
  defines "q \<equiv> \<lparr>q_collection = ''memory'',
                  q_where = (case map_of params ''type'' of
                               None \<Rightarrow> []
                             | Some X \<Rightarrow> if X = [] then [] else [(''type'', Eq, JStr X)]) @
                            (case map_of params ''tags'' of
                               None \<Rightarrow> []
                             | Some T \<Rightarrow> if T = [] then [] else [(''tags'', ArrayContains, JStr T)]),
                  q_order = Some Desc, q_limit = Some n\<rparr>"
  shows "calls (snd (memory_search params w)) = calls w @ [FsGet q]"
    and "faults w (length (calls w)) = None \<Longrightarrow> 0 \<le> n \<Longrightarrow>
         status (fst (memory_search params w)) = 200 \<and>
         returned_memories (fst (memory_search params w)) =
           map record_of (take (nat n) (ordered (Some Desc)
              (filter (\<lambda>d. list_all (satisfies d) (q_where q)) (collections w ''memory''))))"
    and "faults w (length (calls w)) \<noteq> None \<or> n < 0 \<Longrightarrow>
         status (fst (memory_search params w)) = 500 \<and>
         returned_memories (fst (memory_search params w)) = []"
proof -
  have build: "limit_q n (orderBy_timestamp Desc
        (if str_truthy (map_of params ''tags'')
         then where_q ''tags'' ArrayContains (JStr (the (map_of params ''tags'')))
                (if str_truthy (map_of params ''type'')
                 then where_q ''type'' Eq (JStr (the (map_of params ''type''))) (collection ''memory'')
                 else collection ''memory'')
         else (if str_truthy (map_of params ''type'')
               then where_q ''type'' Eq (JStr (the (map_of params ''type''))) (collection ''memory'')
               else collection ''memory''))) = q"
    by (simp add: q_def limit_q_def orderBy_timestamp_def where_q_def collection_def str_truthy_def
             split: option.split)
  have run: "memory_search params w =
     (case fs_get q w of
        (Inr docs, w') \<Rightarrow>
          (\<lparr>status = 200,
            payload = [(''success'', RJson (JBool True)),
                       (''data'', RObj [(''memories'', RList (map RDoc (map record_of docs))),
                                        (''count'', RJson (JNum (of_nat (length (map record_of docs)))))]),
                       (''timestamp'', RJson (JStr (date_iso w')))]\<rparr>, w')
      | (Inl message, w') \<Rightarrow>
          (\<lparr>status = 500,
            payload = [(''success'', RJson (JBool False)),
                       (''error'', RJson (JStr message))]\<rparr>, w'))"
    using assms(1) by (simp add: memory_search_def Let_def build split: prod.split sum.split)
  have coll: "q_collection q = ''memory''" "q_limit q = Some n" "q_order q = Some Desc"
    by (simp_all add: q_def)
  show "calls (snd (memory_search params w)) = calls w @ [FsGet q]"
    by (simp add: run fs_get_def issue_def split: option.split sum.split)
  show "status (fst (memory_search params w)) = 200 \<and>
         returned_memories (fst (memory_search params w)) =
           map record_of (take (nat n) (ordered (Some Desc)
              (filter (\<lambda>d. list_all (satisfies d) (q_where q)) (collections w ''memory''))))"
    if "faults w (length (calls w)) = None" "0 \<le> n"
    using that
    by (simp add: run fs_get_def coll run_query_limited returned_memories_ok del: map_map)
  show "status (fst (memory_search params w)) = 500 \<and>
         returned_memories (fst (memory_search params w)) = []"
    if "faults w (length (calls w)) \<noteq> None \<or> n < 0"
  proof (cases "faults w (length (calls w))")
    case (Some msg)
    then show ?thesis
      by (simp add: run fs_get_def returned_memories_error)
  next
    case None
    with that have "n < 0" by simp
    with None show ?thesis
      by (simp add: run fs_get_def coll run_query_negative returned_memories_error)
  qed
qed

lemma satisfies_Eq:
  "satisfies d (f, Eq, v) \<Longrightarrow> map_of (doc_data d) f = Some (Val v)"
  by (simp add: satisfies_def)

lemma satisfies_ArrayContains:
  "satisfies d (f, ArrayContains, v) \<Longrightarrow>
     \<exists>xs. map_of (doc_data d) f = Some (Val (JArr xs)) \<and> v \<in> set xs"
  by (auto simp: satisfies_def split: option.splits fsval.splits json.splits)

lemma in_take_ordered_filter:
  "d \<in> set (take n (ordered ord (filter P ds))) \<Longrightarrow> d \<in> set ds \<and> P d"
  by (auto dest!: in_set_takeD simp: set_ordered)


text \<open>The documents the handlers add carry the server-assigned timestamp in their field.\<close>

lemma fs_add_timestamped:
  assumes "map_of entry ''timestamp'' = Some ServerTimestamp"
      and "faults w (length (calls w)) = None"
  shows "\<exists>d. collections (snd (fs_add c entry w)) c = collections w c @ [d] \<and> timestamped d"
  using assms
  by (simp add: fs_add_def issue_def Let_def timestamped_def record_time_def map_of_stamped
        stamp_simps)

lemma times_of_timestamped:
  "\<forall>d \<in> set ds. timestamped d \<Longrightarrow>
     map record_time (map record_of ds) = map Some (map doc_timestamp ds)"
  by (induction ds) (simp_all add: record_time_record_of)

lemma found_descending:
  "sorted_wrt (\<lambda>a b. doc_timestamp b \<le> doc_timestamp a) (take n (ordered (Some Desc) ds))"
  using ordered_desc_sorted by (rule sorted_wrt_take)

text \<open>
  C5, as amended.  For every request to \<^verbatim>\<open>GET /api/memory/search\<close> with a non-empty
  \<^verbatim>\<open>type=X\<close> and \<^verbatim>\<open>limit=N\<close>, \<open>N\<close> positive, the handler issues one fetch on the memory
  collection: an equality filter on \<^verbatim>\<open>type\<close>, an array-membership filter on \<^verbatim>\<open>tags\<close>
  when a non-empty \<^verbatim>\<open>tags\<close> is given, descending timestamp order, limit \<open>N\<close>.  The
  response carries at most \<open>N\<close> records, each with \<^verbatim>\<open>type\<close> equal to \<open>X\<close>.  They are the
  records of documents of the collection, in descending order of the server-assigned
  timestamp, which is the order of their \<^verbatim>\<open>timestamp\<close> fields when the documents carry
  it there; when the fetch succeeds they are the \<open>N\<close> most recent matching documents.
\<close>

theorem memory_search_by_type:
  assumes type: "map_of params ''type'' = Some X" "X \<noteq> []"
      and limit: "map_of params ''limit'' = Some L" "parseInt (engine_number w) L = Some (int N)"
        "0 < N"
  shows "\<exists>filters found.
           filters = (''type'', Eq, JStr X) #
                     (case map_of params ''tags'' of
                        None \<Rightarrow> []
                      | Some T \<Rightarrow> if T = [] then [] else [(''tags'', ArrayContains, JStr T)]) \<and>
           calls (snd (memory_search params w)) =
             calls w @ [FsGet \<lparr>q_collection = ''memory'', q_where = filters,
                               q_order = Some Desc, q_limit = Some (int N)\<rparr>] \<and>
           length (returned_memories (fst (memory_search params w))) \<le> N \<and>
           (\<forall>m \<in> set (returned_memories (fst (memory_search params w))).
               map_of m ''type'' = Some (Val (JStr X))) \<and>
           returned_memories (fst (memory_search params w)) = map record_of found \<and>
           set found \<subseteq> set (collections w ''memory'') \<and>
           sorted_wrt (\<lambda>a b. doc_timestamp b \<le> doc_timestamp a) found \<and>
           ((\<forall>d \<in> set (collections w ''memory''). timestamped d) \<longrightarrow>
              (\<exists>ts. map record_time (returned_memories (fst (memory_search params w))) = map Some ts \<and>
                    sorted_wrt (\<lambda>a b. b \<le> a) ts)) \<and>
           (faults w (length (calls w)) = None \<longrightarrow>
              status (fst (memory_search params w)) = 200 \<and>
              found = take N (ordered (Some Desc)
                        (filter (\<lambda>d. list_all (satisfies d) filters) (collections w ''memory''))))"
proof -
  let ?filters = "(''type'', Eq, JStr X) #
                  (case map_of params ''tags'' of
                     None \<Rightarrow> []
                   | Some T \<Rightarrow> if T = [] then [] else [(''tags'', ArrayContains, JStr T)])"
  let ?q = "\<lparr>q_collection = ''memory'', q_where = ?filters,
             q_order = Some Desc, q_limit = Some (int N)\<rparr>"
  let ?r = "fst (memory_search params w)"
  let ?all = "take N (ordered (Some Desc)
                (filter (\<lambda>d. list_all (satisfies d) ?filters) (collections w ''memory'')))"
  let ?found = "if faults w (length (calls w)) = None then ?all else []"
  have parsed: "parseInt (engine_number w)
                  (case map_of params ''limit'' of None \<Rightarrow> ''10'' | Some s \<Rightarrow> s) = Some (int N)"
    using limit by simp
  have built: "\<lparr>q_collection = ''memory'',
                q_where = (case map_of params ''type'' of
                             None \<Rightarrow> []
                           | Some X \<Rightarrow> if X = [] then [] else [(''type'', Eq, JStr X)]) @
                          (case map_of params ''tags'' of
                             None \<Rightarrow> []
                           | Some T \<Rightarrow> if T = [] then [] else [(''tags'', ArrayContains, JStr T)]),
                q_order = Some Desc, q_limit = Some (int N)\<rparr> = ?q"
    using type by simp
  note facts = memory_search_cases [OF parsed, unfolded built]
  have issued: "calls (snd (memory_search params w)) = calls w @ [FsGet ?q]"
    by (rule facts(1))
  have answer: "returned_memories ?r = map record_of ?found"
  proof (cases "faults w (length (calls w))")
    case None
    then show ?thesis using facts(2) by simp
  next
    case (Some msg)
    then show ?thesis using facts(3) by simp
  qed
  have exact: "status ?r = 200" if "faults w (length (calls w)) = None"
    using facts(2) that by simp
  have members: "d \<in> set (collections w ''memory'') \<and> list_all (satisfies d) ?filters"
    if "d \<in> set ?found" for d
    using that by (auto dest: in_take_ordered_filter split: if_splits)
  have bounded: "length (returned_memories ?r) \<le> N"
    by (simp add: answer)
  have typed: "map_of m ''type'' = Some (Val (JStr X))" if "m \<in> set (returned_memories ?r)" for m
  proof -
    from that answer obtain d where d: "d \<in> set ?found" "m = record_of d"
      by auto
    from members [OF d(1)] have "satisfies d (''type'', Eq, JStr X)"
      by simp
    then have "map_of (doc_data d) ''type'' = Some (Val (JStr X))"
      by (rule satisfies_Eq)
    with d(2) show ?thesis
      by (simp add: record_of_lookup)
  qed
  have within: "set ?found \<subseteq> set (collections w ''memory'')"
    using members by blast
  have descending: "sorted_wrt (\<lambda>a b. doc_timestamp b \<le> doc_timestamp a) ?found"
    using found_descending by simp
  have times: "\<exists>ts. map record_time (returned_memories ?r) = map Some ts \<and>
                    sorted_wrt (\<lambda>a b. b \<le> a) ts"
    if "\<forall>d \<in> set (collections w ''memory''). timestamped d"
  proof (intro exI conjI)
    from that within have "\<forall>d \<in> set ?found. timestamped d"
      by blast
    then show "map record_time (returned_memories ?r) = map Some (map doc_timestamp ?found)"
      unfolding answer by (rule times_of_timestamped)
    from descending show "sorted_wrt (\<lambda>a b. b \<le> a) (map doc_timestamp ?found)"
      by (simp add: sorted_wrt_map)
  qed
  show ?thesis
  proof (rule exI [of _ ?filters], rule exI [of _ ?found], intro conjI impI ballI)
    show "?filters = ?filters" by (rule refl)
    show "calls (snd (memory_search params w)) = calls w @ [FsGet ?q]" by (rule issued)
    show "length (returned_memories ?r) \<le> N" by (rule bounded)
    show "map_of m ''type'' = Some (Val (JStr X))" if "m \<in> set (returned_memories ?r)" for m
      using that by (rule typed)
    show "returned_memories ?r = map record_of ?found" by (rule answer)
    show "set ?found \<subseteq> set (collections w ''memory'')" by (rule within)
    show "sorted_wrt (\<lambda>a b. doc_timestamp b \<le> doc_timestamp a) ?found" by (rule descending)
    show "\<exists>ts. map record_time (returned_memories ?r) = map Some ts \<and>
               sorted_wrt (\<lambda>a b. b \<le> a) ts"
      if "\<forall>d \<in> set (collections w ''memory''). timestamped d"
      using that by (rule times)
    show "status ?r = 200" if "faults w (length (calls w)) = None"
      using that by (rule exact)
    show "?found = ?all" if "faults w (length (calls w)) = None"
      using that by simp
  qed
qed

text \<open>
  A run of the theorem: of three notes and one interaction, the two most recent notes
  are returned, the most recent first.
\<close>

theorem memory_search_by_type_witness:
  "map_of [(''type'', ''note''), (''limit'', ''2'')] ''type'' = Some ''note'' \<and>
   parseInt (engine_number (sample_world [note_doc ''n1'' 5 ''first'' [], interaction_doc,
                note_doc ''n2'' 9 ''second'' [], note_doc ''n3'' 7 ''third'' []] no_faults)) ''2'' =
     Some (int 2) \<and>
   calls (snd (memory_search [(''type'', ''note''), (''limit'', ''2'')]
      (sample_world [note_doc ''n1'' 5 ''first'' [], interaction_doc, note_doc ''n2'' 9 ''second'' [],
                     note_doc ''n3'' 7 ''third'' []] no_faults))) =
     [FsGet \<lparr>q_collection = ''memory'', q_where = [(''type'', Eq, JStr ''note'')],
             q_order = Some Desc, q_limit = Some 2\<rparr>] \<and>
   returned_memories (fst (memory_search [(''type'', ''note''), (''limit'', ''2'')]
      (sample_world [note_doc ''n1'' 5 ''first'' [], interaction_doc, note_doc ''n2'' 9 ''second'' [],
                     note_doc ''n3'' 7 ''third'' []] no_faults))) =
     [record_of (note_doc ''n2'' 9 ''second'' []), record_of (note_doc ''n3'' 7 ''third'' [])]"
proof -
  let ?p = "[(''type'', ''note''), (''limit'', ''2'')]"
  let ?w = "sample_world [note_doc ''n1'' 5 ''first'' [], interaction_doc,
              note_doc ''n2'' 9 ''second'' [], note_doc ''n3'' 7 ''third'' []] no_faults"
  have parsed: "parseInt (engine_number ?w) ''2'' = Some (int 2)"
    by (simp add: parseInt_examples)
  have world: "calls ?w = []" "faults ?w 0 = None"
    "collections ?w ''memory'' =
       [note_doc ''n1'' 5 ''first'' [], interaction_doc, note_doc ''n2'' 9 ''second'' [],
        note_doc ''n3'' 7 ''third'' []]"
    by (simp_all add: sample_world_def)
  have matches: "satisfies (note_doc i t c []) (''type'', Eq, JStr ''note'')"
    "\<not> satisfies interaction_doc (''type'', Eq, JStr ''note'')" for i t c
    by (simp_all add: satisfies_def doc_data_def note_doc_def interaction_doc_def)
  have times: "doc_timestamp (note_doc i t c []) = t" for i t c
    by (simp add: note_doc_def)
  note facts = memory_search_cases [of ?w ?p 2]
  have issued: "calls (snd (memory_search ?p ?w)) =
      [FsGet \<lparr>q_collection = ''memory'', q_where = [(''type'', Eq, JStr ''note'')],
              q_order = Some Desc, q_limit = Some 2\<rparr>]"
    using facts(1) parsed by (simp add: world)
  have found: "returned_memories (fst (memory_search ?p ?w)) =
      [record_of (note_doc ''n2'' 9 ''second'' []), record_of (note_doc ''n3'' 7 ''third'' [])]"
    using facts(2) parsed by (simp add: world matches ordered_def times)
  from memory_search_by_type [of ?p "''note''" "''2''" ?w 2] parsed
  have "length (returned_memories (fst (memory_search ?p ?w))) \<le> 2"
    by auto
  with issued found parsed show ?thesis
    by simp
qed

text \<open>
  C5 as stated fails: for \<^verbatim>\<open>?type=&limit=5\<close> the parameter \<^verbatim>\<open>type\<close> is the empty
  string, the handler builds no filter, and the response holds a record whose type is
  \<^verbatim>\<open>note\<close>.
\<close>

theorem memory_search_empty_type_unfiltered:
  "map_of [(''type'', ''''), (''limit'', ''5'')] ''type'' = Some '''' \<and>
   calls (snd (memory_search [(''type'', ''''), (''limit'', ''5'')]
      (sample_world [note_doc ''n1'' 5 ''first'' []] no_faults))) =
     [FsGet \<lparr>q_collection = ''memory'', q_where = [], q_order = Some Desc, q_limit = Some 5\<rparr>] \<and>
   returned_memories (fst (memory_search [(''type'', ''''), (''limit'', ''5'')]
      (sample_world [note_doc ''n1'' 5 ''first'' []] no_faults))) =
     [record_of (note_doc ''n1'' 5 ''first'' [])] \<and>
   map_of (record_of (note_doc ''n1'' 5 ''first'' [])) ''type'' = Some (Val (JStr ''note'')) \<and>
   JStr ''note'' \<noteq> JStr ''''"
proof -
  let ?p = "[(''type'', ''''), (''limit'', ''5'')]"
  let ?w = "sample_world [note_doc ''n1'' 5 ''first'' []] no_faults"
  have parsed: "parseInt (engine_number ?w)
                  (case map_of ?p ''limit'' of None \<Rightarrow> ''10'' | Some s \<Rightarrow> s) = Some 5"
    by (simp add: parseInt_examples)
  have world: "calls ?w = []" "faults ?w 0 = None"
    "collections ?w ''memory'' = [note_doc ''n1'' 5 ''first'' []]"
    by (simp_all add: sample_world_def)
  note facts = memory_search_cases [OF parsed]
  have issued: "calls (snd (memory_search ?p ?w)) =
      [FsGet \<lparr>q_collection = ''memory'', q_where = [], q_order = Some Desc, q_limit = Some 5\<rparr>]"
    using facts(1) by (simp add: world)
  have found: "returned_memories (fst (memory_search ?p ?w)) =
      [record_of (note_doc ''n1'' 5 ''first'' [])]"
    using facts(2) by (simp add: world ordered_singleton)
  have "map_of (record_of (note_doc ''n1'' 5 ''first'' [])) ''type'' = Some (Val (JStr ''note''))"
    by (simp add: record_of_lookup doc_data_def note_doc_def)
  with issued found show ?thesis
    by simp
qed

text \<open>
  C10, as amended.  For every request to \<^verbatim>\<open>GET /api/memory/search\<close> with a non-empty
  \<^verbatim>\<open>tags\<close> parameter: when the limit is no integer the handler issues nothing and
  answers 500; otherwise it issues one fetch, whose only array-membership filter is on
  \<^verbatim>\<open>tags\<close> with the whole parameter string as its value, and with a positive limit and
  a fetch that succeeds the response holds the most recent documents that satisfy the
  filters.  Every record of a response has a \<^verbatim>\<open>tags\<close> array with that string among its
  elements.
\<close>

theorem memory_search_by_tags:
  assumes tags: "map_of params ''tags'' = Some T" "T \<noteq> []"
  shows "\<exists>filters.
           filters = (case map_of params ''type'' of
                        None \<Rightarrow> []
                      | Some X \<Rightarrow> if X = [] then [] else [(''type'', Eq, JStr X)]) @
                     [(''tags'', ArrayContains, JStr T)] \<and>
           (parseInt (engine_number w)
              (case map_of params ''limit'' of None \<Rightarrow> ''10'' | Some s \<Rightarrow> s) = None \<longrightarrow>
              calls (snd (memory_search params w)) = calls w \<and>
              status (fst (memory_search params w)) = 500) \<and>
           (\<forall>n. parseInt (engine_number w)
                  (case map_of params ''limit'' of None \<Rightarrow> ''10'' | Some s \<Rightarrow> s) = Some n \<longrightarrow>
                calls (snd (memory_search params w)) =
                  calls w @ [FsGet \<lparr>q_collection = ''memory'', q_where = filters,
                                    q_order = Some Desc, q_limit = Some n\<rparr>] \<and>
                (0 < n \<and> faults w (length (calls w)) = None \<longrightarrow>
                   status (fst (memory_search params w)) = 200 \<and>
                   returned_memories (fst (memory_search params w)) =
                     map record_of (take (nat n) (ordered (Some Desc)
                       (filter (\<lambda>d. list_all (satisfies d) filters) (collections w ''memory'')))))) \<and>
           (\<forall>m \<in> set (returned_memories (fst (memory_search params w))).
              \<exists>xs. map_of m ''tags'' = Some (Val (JArr xs)) \<and> JStr T \<in> set xs)"
proof -
  let ?limit = "case map_of params ''limit'' of None \<Rightarrow> ''10'' | Some s \<Rightarrow> s"
  let ?filters = "(case map_of params ''type'' of
                     None \<Rightarrow> []
                   | Some X \<Rightarrow> if X = [] then [] else [(''type'', Eq, JStr X)]) @
                  [(''tags'', ArrayContains, JStr T)]"
  let ?r = "fst (memory_search params w)"
  have built: "(case map_of params ''type'' of
                  None \<Rightarrow> []
                | Some X \<Rightarrow> if X = [] then [] else [(''type'', Eq, JStr X)]) @
               (case map_of params ''tags'' of
                  None \<Rightarrow> []
                | Some T \<Rightarrow> if T = [] then [] else [(''tags'', ArrayContains, JStr T)]) = ?filters"
    using tags by simp
  have nan: "calls (snd (memory_search params w)) = calls w \<and> status ?r = 500"
    if "parseInt (engine_number w) ?limit = None"
    using memory_search_nan [OF that] by simp
  have number: "calls (snd (memory_search params w)) =
                  calls w @ [FsGet \<lparr>q_collection = ''memory'', q_where = ?filters,
                                    q_order = Some Desc, q_limit = Some n\<rparr>] \<and>
                (0 < n \<and> faults w (length (calls w)) = None \<longrightarrow>
                   status ?r = 200 \<and>
                   returned_memories ?r =
                     map record_of (take (nat n) (ordered (Some Desc)
                       (filter (\<lambda>d. list_all (satisfies d) ?filters) (collections w ''memory''))))) \<and>
                (returned_memories ?r = [] \<or>
                 returned_memories ?r =
                     map record_of (take (nat n) (ordered (Some Desc)
                       (filter (\<lambda>d. list_all (satisfies d) ?filters) (collections w ''memory'')))))"
    if parsed: "parseInt (engine_number w) ?limit = Some n" for n
  proof -
    note facts = memory_search_cases [OF parsed, unfolded built]
    show ?thesis
    proof (cases "faults w (length (calls w)) = None \<and> 0 \<le> n")
      case True
      then show ?thesis using facts(1,2) by simp
    next
      case False
      then have "faults w (length (calls w)) \<noteq> None \<or> n < 0" by auto
      from facts(3) [OF this] False facts(1) show ?thesis by auto
    qed
  qed
  have tagged: "\<exists>xs. map_of m ''tags'' = Some (Val (JArr xs)) \<and> JStr T \<in> set xs"
    if m: "m \<in> set (returned_memories ?r)" for m
  proof (cases "parseInt (engine_number w) ?limit")
    case None
    from memory_search_nan [OF None] have "returned_memories ?r = []"
      by (simp add: returned_memories_error)
    with m show ?thesis by simp
  next
    case (Some n)
    let ?all = "take (nat n) (ordered (Some Desc)
                  (filter (\<lambda>d. list_all (satisfies d) ?filters) (collections w ''memory'')))"
    from number [OF Some]
    have "returned_memories ?r = [] \<or> returned_memories ?r = map record_of ?all"
      by blast
    with m have "m \<in> set (map record_of ?all)"
      by (cases "returned_memories ?r = []") simp_all
    then have "m \<in> record_of ` set ?all"
      by (simp only: set_map)
    then obtain d where d: "d \<in> set ?all" "m = record_of d"
      by (rule imageE)
    from d(1) have "list_all (satisfies d) ?filters"
      by (blast dest: in_take_ordered_filter)
    then have "satisfies d (''tags'', ArrayContains, JStr T)"
      by simp
    then have "\<exists>xs. map_of (doc_data d) ''tags'' = Some (Val (JArr xs)) \<and> JStr T \<in> set xs"
      by (rule satisfies_ArrayContains)
    with d(2) show ?thesis
      by (simp add: record_of_lookup)
  qed
  show ?thesis
  proof (rule exI [of _ ?filters], intro conjI impI allI ballI)
    show "?filters = ?filters" by (rule refl)
    show "calls (snd (memory_search params w)) = calls w" "status ?r = 500"
      if "parseInt (engine_number w) ?limit = None"
      using nan [OF that] by simp_all
    show "calls (snd (memory_search params w)) =
            calls w @ [FsGet \<lparr>q_collection = ''memory'', q_where = ?filters,
                              q_order = Some Desc, q_limit = Some n\<rparr>]"
      if "parseInt (engine_number w) ?limit = Some n" for n
      using number [OF that] by simp
    show "status ?r = 200"
      "returned_memories ?r =
         map record_of (take (nat n) (ordered (Some Desc)
           (filter (\<lambda>d. list_all (satisfies d) ?filters) (collections w ''memory''))))"
      if "parseInt (engine_number w) ?limit = Some n" "0 < n \<and> faults w (length (calls w)) = None"
      for n
      using number [OF that(1)] that(2) by simp_all
    show "\<exists>xs. map_of m ''tags'' = Some (Val (JArr xs)) \<and> JStr T \<in> set xs"
      if "m \<in> set (returned_memories ?r)" for m
      using that by (rule tagged)
  qed
qed

text \<open>
  A run of the theorem: for \<^verbatim>\<open>?tags=a,b\<close> the note tagged \<^verbatim>\<open>["a,b"]\<close> is returned and
  the note tagged \<^verbatim>\<open>["a", "b"]\<close> is not.
\<close>

theorem memory_search_by_tags_witness:
  "map_of [(''tags'', ''a,b'')] ''tags'' = Some ''a,b'' \<and>
   calls (snd (memory_search [(''tags'', ''a,b'')]
      (sample_world [note_doc ''n1'' 5 ''first'' [''a'', ''b''], note_doc ''n2'' 9 ''second'' [''a,b'']]
         no_faults))) =
     [FsGet \<lparr>q_collection = ''memory'', q_where = [(''tags'', ArrayContains, JStr ''a,b'')],
             q_order = Some Desc, q_limit = Some 10\<rparr>] \<and>
   returned_memories (fst (memory_search [(''tags'', ''a,b'')]
      (sample_world [note_doc ''n1'' 5 ''first'' [''a'', ''b''], note_doc ''n2'' 9 ''second'' [''a,b'']]
         no_faults))) =
     [record_of (note_doc ''n2'' 9 ''second'' [''a,b''])]"
proof -
  let ?p = "[(''tags'', ''a,b'')]"
  let ?w = "sample_world [note_doc ''n1'' 5 ''first'' [''a'', ''b''],
                          note_doc ''n2'' 9 ''second'' [''a,b'']] no_faults"
  have parsed: "parseInt (engine_number ?w)
                  (case map_of ?p ''limit'' of None \<Rightarrow> ''10'' | Some s \<Rightarrow> s) = Some 10"
    by (simp add: parseInt_examples)
  have world: "calls ?w = []" "faults ?w 0 = None"
    "collections ?w ''memory'' =
       [note_doc ''n1'' 5 ''first'' [''a'', ''b''], note_doc ''n2'' 9 ''second'' [''a,b'']]"
    by (simp_all add: sample_world_def)
  have matches: "\<not> satisfies (note_doc ''n1'' 5 ''first'' [''a'', ''b'']) (''tags'', ArrayContains, JStr ''a,b'')"
    "satisfies (note_doc ''n2'' 9 ''second'' [''a,b'']) (''tags'', ArrayContains, JStr ''a,b'')"
    by (simp_all add: satisfies_def doc_data_def note_doc_def)
  note facts = memory_search_cases [OF parsed]
  have issued: "calls (snd (memory_search ?p ?w)) =
      [FsGet \<lparr>q_collection = ''memory'', q_where = [(''tags'', ArrayContains, JStr ''a,b'')],
              q_order = Some Desc, q_limit = Some 10\<rparr>]"
    using facts(1) by (simp add: world)
  have found: "returned_memories (fst (memory_search ?p ?w)) =
      [record_of (note_doc ''n2'' 9 ''second'' [''a,b''])]"
    using facts(2) by (simp add: world matches ordered_singleton)
  from memory_search_by_tags [of ?p "''a,b''" ?w]
  have "\<forall>m \<in> set (returned_memories (fst (memory_search ?p ?w))).
          \<exists>xs. map_of m ''tags'' = Some (Val (JArr xs)) \<and> JStr ''a,b'' \<in> set xs"
    by auto
  with issued found show ?thesis
    by simp
qed

text \<open>
  C10 as stated fails: for \<^verbatim>\<open>?tags=\<close> the parameter is the empty string, the handler
  builds no filter, and the response holds a record whose tags do not contain the empty
  string.
\<close>

theorem memory_search_empty_tags_unfiltered:
  "map_of [(''tags'', '''')] ''tags'' = Some '''' \<and>
   calls (snd (memory_search [(''tags'', '''')]
      (sample_world [note_doc ''n1'' 5 ''first'' [''a'']] no_faults))) =
     [FsGet \<lparr>q_collection = ''memory'', q_where = [], q_order = Some Desc, q_limit = Some 10\<rparr>] \<and>
   returned_memories (fst (memory_search [(''tags'', '''')]
      (sample_world [note_doc ''n1'' 5 ''first'' [''a'']] no_faults))) =
     [record_of (note_doc ''n1'' 5 ''first'' [''a''])] \<and>
   map_of (record_of (note_doc ''n1'' 5 ''first'' [''a''])) ''tags'' = Some (Val (JArr [JStr ''a''])) \<and>
   JStr '''' \<notin> set [JStr ''a'']"
proof -
  let ?p = "[(''tags'', '''')]"
  let ?w = "sample_world [note_doc ''n1'' 5 ''first'' [''a'']] no_faults"
  have parsed: "parseInt (engine_number ?w)
                  (case map_of ?p ''limit'' of None \<Rightarrow> ''10'' | Some s \<Rightarrow> s) = Some 10"
    by (simp add: parseInt_examples)
  have world: "calls ?w = []" "faults ?w 0 = None"
    "collections ?w ''memory'' = [note_doc ''n1'' 5 ''first'' [''a'']]"
    by (simp_all add: sample_world_def)
  note facts = memory_search_cases [OF parsed]
  have issued: "calls (snd (memory_search ?p ?w)) =
      [FsGet \<lparr>q_collection = ''memory'', q_where = [], q_order = Some Desc, q_limit = Some 10\<rparr>]"
    using facts(1) by (simp add: world)
  have found: "returned_memories (fst (memory_search ?p ?w)) =
      [record_of (note_doc ''n1'' 5 ''first'' [''a''])]"
    using facts(2) by (simp add: world ordered_singleton)
  have "map_of (record_of (note_doc ''n1'' 5 ''first'' [''a''])) ''tags'' =
      Some (Val (JArr [JStr ''a'']))"
    by (simp add: record_of_lookup doc_data_def note_doc_def)
  with issued found show ?thesis
    by simp
qed

end
